theory Spec2Isabelle
  imports Complex_Main "HOL-Library.Product_Lexorder" "HOL-Library.AList"
begin

section \<open>Python values and the library primitives the detector calls\<close>

text \<open>
  The change detector of \<^verbatim>\<open>src/change_detector.py\<close> works on untyped dictionaries.
  A Change Record is modelled as the dictionary literal the source builds: an association
  list from field names to values, in the order the literal lists them. Floats are
  idealised as rationals (no NaN, no infinities).
\<close>

datatype pyval =
    PNone
  | PBool bool
  | PInt int
  | PFloat rat
  | PStr string
  | PList "pyval list"
  | PDict "(string \<times> pyval) list"

type_synonym change = "(string \<times> pyval) list"

text \<open>
  Functions of the Python runtime and of third-party libraries are not code of the
  repository. Those whose results no property below depends on are gathered in a record
  that every function takes as its first argument:
  \<^item> \<open>is_word\<close>, \<open>is_space\<close>: the character classes \<^verbatim>\<open>\w\<close> and \<^verbatim>\<open>\s\<close> of \<^verbatim>\<open>re\<close>
    (the second is also the class of \<^verbatim>\<open>str.strip\<close> and \<^verbatim>\<open>str.isspace\<close>);
  \<^item> \<open>md5_hexdigest\<close>: \<^verbatim>\<open>hashlib.md5(s.encode('utf-8')).hexdigest()\<close>;
  \<^item> \<open>ssim_of_data\<close>: the body of the \<^verbatim>\<open>try\<close> block of \<^verbatim>\<open>_compare_images\<close> (base64
    decoding, PIL, numpy cropping, scikit-image), \<open>None\<close> when anything in it raises;
  \<^item> \<open>parse_float\<close>: \<^verbatim>\<open>float(s)\<close> on a string, \<open>None\<close> when it raises;
  \<^item> \<open>round3\<close>: \<^verbatim>\<open>round(x, 3)\<close> on a float;
  \<^item> \<open>str_float\<close>: \<^verbatim>\<open>str(x)\<close> on a float; \<open>fmt_2f\<close>: \<^verbatim>\<open>f'{x:.2f}'\<close>.
\<close>

record platform =
  is_word :: "char \<Rightarrow> bool"
  is_space :: "char \<Rightarrow> bool"
  md5_hexdigest :: "string \<Rightarrow> string"
  ssim_of_data :: "string \<Rightarrow> string \<Rightarrow> rat option"
  parse_float :: "string \<Rightarrow> rat option"
  round3 :: "rat \<Rightarrow> rat"
  str_float :: "rat \<Rightarrow> string"
  fmt_2f :: "rat \<Rightarrow> string"

datatype error = KeyError string | TypeError | ValueError

definition ebind :: "error + 'a \<Rightarrow> ('a \<Rightarrow> error + 'b) \<Rightarrow> error + 'b" where
  "ebind m f = (case m of Inl e \<Rightarrow> Inl e | Inr x \<Rightarrow> f x)"

subsection \<open>\<^verbatim>\<open>str\<close>, \<^verbatim>\<open>html.escape\<close>, slices\<close>

fun str_nat :: "nat \<Rightarrow> string" where
  "str_nat n =
     (if n < 10 then [''0123456789'' ! n]
      else str_nat (n div 10) @ [''0123456789'' ! (n mod 10)])"

declare str_nat.simps [simp del]

definition str_int :: "int \<Rightarrow> string" where
  "str_int i = (if i < 0 then CHR ''-'' # str_nat (nat (- i)) else str_nat (nat i))"

text \<open>
  \<^verbatim>\<open>str(v)\<close>, as an f-string applies it. Only \<^verbatim>\<open>None\<close> and scalars reach an f-string of
  the detector (attribute values, cell values, a page number); the last two equations
  stand for the text of a list and of a dictionary, which no property reads.
\<close>

fun py_str :: "platform \<Rightarrow> pyval \<Rightarrow> string" where
  "py_str P PNone = ''None''"
| "py_str P (PBool b) = (if b then ''True'' else ''False'')"
| "py_str P (PInt i) = str_int i"
| "py_str P (PFloat q) = str_float P q"
| "py_str P (PStr s) = s"
| "py_str P (PList xs) = ''[...]''"
| "py_str P (PDict kvs) = ''{...}''"

definition escape_char :: "char \<Rightarrow> string" where
  "escape_char c =
     (if c = CHR ''&'' then ''&amp;''
      else if c = CHR ''<'' then ''&lt;''
      else if c = CHR ''>'' then ''&gt;''
      else if c = CHR 0x22 then ''&quot;''
      else if c = CHR 0x27 then ''&#x27;''
      else [c])"

definition html_escape :: "string \<Rightarrow> string" where
  "html_escape s = concat (map escape_char s)"

text \<open>The slice \<^verbatim>\<open>xs[i:j]\<close> for \<open>0 \<le> i\<close>, \<open>0 \<le> j\<close>.\<close>

definition slice :: "'a list \<Rightarrow> nat \<Rightarrow> nat \<Rightarrow> 'a list" where
  "slice xs i j = take (j - i) (drop i xs)"

definition py_strip :: "platform \<Rightarrow> string \<Rightarrow> string" where
  "py_strip P t = rev (dropWhile (is_space P) (rev (dropWhile (is_space P) t)))"

definition py_isspace :: "platform \<Rightarrow> string \<Rightarrow> bool" where
  "py_isspace P t \<longleftrightarrow> t \<noteq> [] \<and> list_all (is_space P) t"

section \<open>Diff utilities\<close>

subsection \<open>\<^verbatim>\<open>_tokenize_keep_spaces\<close>\<close>

text \<open>
  \<^verbatim>\<open>re.findall(r'\w+|[^\w\s]+|\s+', s or "", re.UNICODE)\<close>: at each position the
  alternatives are tried in order and the first that matches takes its longest run. A
  character that is neither \<^verbatim>\<open>\w\<close> nor outside \<^verbatim>\<open>\w\<close> and \<^verbatim>\<open>\s\<close> is a \<^verbatim>\<open>\s\<close>, so the
  third alternative is the last branch.
\<close>

function tokenize_keep_spaces :: "platform \<Rightarrow> string \<Rightarrow> string list" where
  "tokenize_keep_spaces P [] = []"
| "tokenize_keep_spaces P (c # cs) =
     (if is_word P c then
        (c # takeWhile (is_word P) cs) # tokenize_keep_spaces P (dropWhile (is_word P) cs)
      else if \<not> is_space P c then
        (c # takeWhile (\<lambda>x. \<not> is_word P x \<and> \<not> is_space P x) cs)
          # tokenize_keep_spaces P (dropWhile (\<lambda>x. \<not> is_word P x \<and> \<not> is_space P x) cs)
      else
        (c # takeWhile (is_space P) cs) # tokenize_keep_spaces P (dropWhile (is_space P) cs))"
  by pat_completeness auto
termination
  by (relation "measure (\<lambda>(P, s). length s)")
     (auto simp: le_imp_less_Suc length_dropWhile_le)

subsection \<open>\<^verbatim>\<open>difflib.SequenceMatcher\<close>\<close>

text \<open>
  The detector aligns token and sentence lists with
  \<^verbatim>\<open>SequenceMatcher(a=a, b=b).get_opcodes()\<close> of the Python standard library. Its
  behaviour decides what the detector reports, so it is transcribed from CPython's
  \<^verbatim>\<open>difflib.py\<close>, with \<^verbatim>\<open>isjunk = None\<close> and \<^verbatim>\<open>autojunk = True\<close> as the detector
  constructs it.

  \<^verbatim>\<open>__chain_b\<close>: \<open>b2j b elt\<close> is \<^verbatim>\<open>b2j.get(elt, [])\<close>, the ascending indices of \<open>elt\<close>
  in \<open>b\<close>, or nothing when \<open>elt\<close> was purged as popular (\<open>b\<close> has at least 200 elements
  and \<open>elt\<close> occurs more than \<^verbatim>\<open>len(b) // 100 + 1\<close> times).
\<close>

definition popular :: "'a list \<Rightarrow> 'a \<Rightarrow> bool" where
  "popular b elt \<longleftrightarrow> 200 \<le> length b \<and> length b div 100 + 1 < count_list b elt"

definition b2j :: "'a list \<Rightarrow> 'a \<Rightarrow> nat list" where
  "b2j b elt = (if popular b elt then [] else filter (\<lambda>j. b ! j = elt) [0..<length b])"

text \<open>
  \<^verbatim>\<open>find_longest_match\<close>, inner loop over \<^verbatim>\<open>b2j.get(a[i], nothing)\<close>. The state is
  \<^verbatim>\<open>(newj2len, besti, bestj, bestsize)\<close>. \<^verbatim>\<open>j2len.get(j-1, 0)\<close> at \<open>j = 0\<close> looks up
  the key \<open>-1\<close>, which is never there.
\<close>

type_synonym flm_state = "(nat \<rightharpoonup> nat) \<times> nat \<times> nat \<times> nat"

definition j2lenget :: "(nat \<rightharpoonup> nat) \<Rightarrow> nat \<Rightarrow> nat" where
  "j2lenget j2len j = (if j = 0 then 0 else case j2len (j - 1) of None \<Rightarrow> 0 | Some v \<Rightarrow> v)"

fun flm_inner :: "(nat \<rightharpoonup> nat) \<Rightarrow> nat \<Rightarrow> nat \<Rightarrow> nat \<Rightarrow> nat list \<Rightarrow> flm_state \<Rightarrow> flm_state" where
  "flm_inner j2len i blo bhi [] st = st"
| "flm_inner j2len i blo bhi (j # js) (newj2len, besti, bestj, bestsize) =
     (if j < blo then flm_inner j2len i blo bhi js (newj2len, besti, bestj, bestsize)
      else if bhi \<le> j then (newj2len, besti, bestj, bestsize)
      else
        (let k = j2lenget j2len j + 1 in
         if bestsize < k
         then flm_inner j2len i blo bhi js (newj2len(j \<mapsto> k), i + 1 - k, j + 1 - k, k)
         else flm_inner j2len i blo bhi js (newj2len(j \<mapsto> k), besti, bestj, bestsize)))"

definition flm_row :: "'a list \<Rightarrow> 'a list \<Rightarrow> nat \<Rightarrow> nat \<Rightarrow> nat \<Rightarrow> flm_state \<Rightarrow> flm_state" where
  "flm_row a b blo bhi i st =
     (case st of (j2len, besti, bestj, bestsize) \<Rightarrow>
        flm_inner j2len i blo bhi (b2j b (a ! i)) (Map.empty, besti, bestj, bestsize))"

definition flm_main :: "'a list \<Rightarrow> 'a list \<Rightarrow> nat \<Rightarrow> nat \<Rightarrow> nat \<Rightarrow> nat \<Rightarrow> flm_state" where
  "flm_main a b alo ahi blo bhi = fold (flm_row a b blo bhi) [alo..<ahi] (Map.empty, alo, blo, 0)"

text \<open>
  The two \<^verbatim>\<open>while\<close> loops that extend the best match on each end. \<^verbatim>\<open>bjunk\<close> is empty, so
  \<^verbatim>\<open>not isbjunk(...)\<close> holds and the two later loops over junk never run.
\<close>

function extend_back :: "'a list \<Rightarrow> 'a list \<Rightarrow> nat \<Rightarrow> nat \<Rightarrow> nat \<times> nat \<times> nat \<Rightarrow> nat \<times> nat \<times> nat" where
  "extend_back a b alo blo (besti, bestj, bestsize) =
     (if alo < besti \<and> blo < bestj \<and> a ! (besti - 1) = b ! (bestj - 1)
      then extend_back a b alo blo (besti - 1, bestj - 1, bestsize + 1)
      else (besti, bestj, bestsize))"
  by pat_completeness auto
termination
  by (relation "measure (\<lambda>(a, b, alo, blo, besti, bestj, bestsize). besti)") auto

function extend_fwd :: "'a list \<Rightarrow> 'a list \<Rightarrow> nat \<Rightarrow> nat \<Rightarrow> nat \<times> nat \<times> nat \<Rightarrow> nat \<times> nat \<times> nat" where
  "extend_fwd a b ahi bhi (besti, bestj, bestsize) =
     (if besti + bestsize < ahi \<and> bestj + bestsize < bhi
         \<and> a ! (besti + bestsize) = b ! (bestj + bestsize)
      then extend_fwd a b ahi bhi (besti, bestj, bestsize + 1)
      else (besti, bestj, bestsize))"
  by pat_completeness auto
termination
  by (relation "measure (\<lambda>(a, b, ahi, bhi, besti, bestj, bestsize). ahi - (besti + bestsize))") auto

declare extend_back.simps [simp del] extend_fwd.simps [simp del]

definition find_longest_match ::
  "'a list \<Rightarrow> 'a list \<Rightarrow> nat \<Rightarrow> nat \<Rightarrow> nat \<Rightarrow> nat \<Rightarrow> nat \<times> nat \<times> nat" where
  "find_longest_match a b alo ahi blo bhi =
     (case flm_main a b alo ahi blo bhi of (j2len, besti, bestj, bestsize) \<Rightarrow>
        extend_fwd a b ahi bhi (extend_back a b alo blo (besti, bestj, bestsize)))"

text \<open>
  What \<^verbatim>\<open>find_longest_match\<close> returns is a block inside the window whose two sides are
  equal element by element. The invariants of its loops: at row \<open>i\<close> every entry
  \<open>j2len[j] = v\<close> is the length of a common run ending at \<open>a[i-1]\<close> and \<open>b[j]\<close> inside
  the window, and the best block so far is such a run.
\<close>

definition j2len_ok :: "'a list \<Rightarrow> 'a list \<Rightarrow> nat \<Rightarrow> nat \<Rightarrow> nat \<Rightarrow> nat \<Rightarrow> (nat \<rightharpoonup> nat) \<Rightarrow> bool" where
  "j2len_ok a b alo blo bhi i j2len \<longleftrightarrow>
     (\<forall>j v. j2len j = Some v \<longrightarrow>
        blo \<le> j \<and> j < bhi \<and> 1 \<le> v \<and> v \<le> j + 1 - blo \<and> v \<le> i - alo
        \<and> (\<forall>t<v. a ! (i - 1 - t) = b ! (j - t)))"

definition best_ok :: "'a list \<Rightarrow> 'a list \<Rightarrow> nat \<Rightarrow> nat \<Rightarrow> nat \<Rightarrow> nat \<Rightarrow> nat \<times> nat \<times> nat \<Rightarrow> bool" where
  "best_ok a b alo ahi blo bhi blk \<longleftrightarrow>
     (case blk of (i, j, k) \<Rightarrow>
        alo \<le> i \<and> blo \<le> j
        \<and> ((k = 0 \<and> i = alo \<and> j = blo) \<or> (i + k \<le> ahi \<and> j + k \<le> bhi))
        \<and> (\<forall>t<k. a ! (i + t) = b ! (j + t)))"

definition flm_ok :: "'a list \<Rightarrow> 'a list \<Rightarrow> nat \<Rightarrow> nat \<Rightarrow> nat \<Rightarrow> nat \<Rightarrow> nat \<Rightarrow> flm_state \<Rightarrow> bool" where
  "flm_ok a b alo ahi blo bhi i st \<longleftrightarrow>
     (case st of (m, blk) \<Rightarrow> j2len_ok a b alo blo bhi i m \<and> best_ok a b alo ahi blo bhi blk)"

lemma j2len_ok_empty: "j2len_ok a b alo blo bhi i Map.empty"
  by (simp add: j2len_ok_def)

lemma j2lenget_cases:
  "j2lenget m j = 0 \<or> (0 < j \<and> m (j - 1) = Some (j2lenget m j))"
  by (auto simp: j2lenget_def split: option.splits)

lemma j2len_ok_step:
  assumes old: "j2len_ok a b alo blo bhi i m"
    and new: "j2len_ok a b alo blo bhi (Suc i) m'"
    and j: "blo \<le> j" "j < bhi" and eq: "b ! j = a ! i" and i: "alo \<le> i"
    and k: "k = j2lenget m j + 1"
  shows "j2len_ok a b alo blo bhi (Suc i) (m'(j \<mapsto> k))"
    and "k \<le> j + 1 - blo" and "k \<le> Suc i - alo" and "\<forall>t<k. a ! (i - t) = b ! (j - t)"
proof -
  have K: "k \<le> j + 1 - blo \<and> k \<le> Suc i - alo \<and> (\<forall>t<k. a ! (i - t) = b ! (j - t))"
  proof (cases "j2lenget m j = 0")
    case True
    then show ?thesis using j i eq k by auto
  next
    case False
    then have pos: "0 < j" and look: "m (j - 1) = Some (k - 1)"
      using j2lenget_cases [of m j] k by auto
    from old look have b: "blo \<le> j - 1" "k - 1 \<le> j - 1 + 1 - blo" "k - 1 \<le> i - alo"
      and mt: "\<forall>t<k - 1. a ! (i - 1 - t) = b ! (j - 1 - t)"
      unfolding j2len_ok_def by blast+
    have k1: "1 \<le> k" using k by simp
    have "\<forall>t<k. a ! (i - t) = b ! (j - t)"
    proof (intro allI impI)
      fix t assume t: "t < k"
      show "a ! (i - t) = b ! (j - t)"
      proof (cases t)
        case 0 then show ?thesis using eq by simp
      next
        case (Suc u)
        then have "u < k - 1" using t by simp
        with mt have "a ! (i - 1 - u) = b ! (j - 1 - u)" by blast
        then show ?thesis using Suc by simp
      qed
    qed
    moreover have "k \<le> j + 1 - blo" using b pos k1 by linarith
    moreover have "k \<le> Suc i - alo" using b i k1 by linarith
    ultimately show ?thesis by blast
  qed
  then show "k \<le> j + 1 - blo" "k \<le> Suc i - alo" "\<forall>t<k. a ! (i - t) = b ! (j - t)" by blast+
  have "1 \<le> k" using k by simp
  with K new j show "j2len_ok a b alo blo bhi (Suc i) (m'(j \<mapsto> k))"
    unfolding j2len_ok_def by (auto split: if_splits)
qed

lemma best_ok_new:
  assumes "k \<le> j + 1 - blo" "k \<le> Suc i - alo" "\<forall>t<k. a ! (i - t) = b ! (j - t)"
    "blo \<le> j" "j < bhi" "alo \<le> i" "i < ahi"
  shows "best_ok a b alo ahi blo bhi (i + 1 - k, j + 1 - k, k)"
proof -
  have "\<forall>t<k. a ! (i + 1 - k + t) = b ! (j + 1 - k + t)"
  proof (intro allI impI)
    fix t assume t: "t < k"
    then have "k - 1 - t < k" by simp
    with assms(3) have "a ! (i - (k - 1 - t)) = b ! (j - (k - 1 - t))" by blast
    moreover have "i - (k - 1 - t) = i + 1 - k + t" using t assms(2,6) by linarith
    moreover have "j - (k - 1 - t) = j + 1 - k + t" using t assms(1,4) by linarith
    ultimately show "a ! (i + 1 - k + t) = b ! (j + 1 - k + t)" by (simp only:)
  qed
  then show ?thesis using assms unfolding best_ok_def by auto
qed

lemma flm_inner_ok:
  assumes old: "j2len_ok a b alo blo bhi i m"
    and js: "\<forall>j\<in>set js. b ! j = a ! i" and i: "alo \<le> i" "i < ahi"
  shows "flm_ok a b alo ahi blo bhi (Suc i) st \<Longrightarrow>
    flm_ok a b alo ahi blo bhi (Suc i) (flm_inner m i blo bhi js st)"
  using js
proof (induction js arbitrary: st)
  case Nil
  then show ?case by simp
next
  case (Cons j js)
  obtain m' bi bj bs where st: "st = (m', bi, bj, bs)" by (cases st) auto
  from Cons.prems st have new: "j2len_ok a b alo blo bhi (Suc i) m'"
    and best: "best_ok a b alo ahi blo bhi (bi, bj, bs)" by (auto simp: flm_ok_def)
  have rest: "\<forall>j\<in>set js. b ! j = a ! i" and eq: "b ! j = a ! i" using Cons.prems by auto
  show ?case
  proof (cases "j < blo")
    case True
    then show ?thesis using Cons.IH [OF Cons.prems(1) rest] st by simp
  next
    case lo: False
    show ?thesis
    proof (cases "bhi \<le> j")
      case True
      then show ?thesis using lo st Cons.prems(1) by simp
    next
      case False
      define k where "k = j2lenget m j + 1"
      have j: "blo \<le> j" "j < bhi" using lo False by auto
      note S = j2len_ok_step [OF old new j eq i(1) k_def]
      have A: "flm_ok a b alo ahi blo bhi (Suc i) (m'(j \<mapsto> k), bi, bj, bs)"
        using S(1) best by (simp add: flm_ok_def)
      have B: "flm_ok a b alo ahi blo bhi (Suc i) (m'(j \<mapsto> k), i + 1 - k, j + 1 - k, k)"
        using S(1) best_ok_new [OF S(2,3,4) j i] by (simp add: flm_ok_def)
      show ?thesis
        using lo False st Cons.IH [OF A rest] Cons.IH [OF B rest]
        by (simp add: Let_def k_def)
    qed
  qed
qed

lemma b2j_elem: "j \<in> set (b2j b x) \<Longrightarrow> b ! j = x \<and> j < length b"
  by (auto simp: b2j_def split: if_splits)

lemma flm_row_ok:
  assumes "flm_ok a b alo ahi blo bhi i st" "alo \<le> i" "i < ahi"
  shows "flm_ok a b alo ahi blo bhi (Suc i) (flm_row a b blo bhi i st)"
proof -
  obtain m bi bj bs where st: "st = (m, bi, bj, bs)" by (cases st) auto
  have old: "j2len_ok a b alo blo bhi i m" and best: "best_ok a b alo ahi blo bhi (bi, bj, bs)"
    using assms(1) st by (auto simp: flm_ok_def)
  have init: "flm_ok a b alo ahi blo bhi (Suc i) (Map.empty, bi, bj, bs)"
    using best by (simp add: flm_ok_def j2len_ok_empty)
  have "\<forall>j\<in>set (b2j b (a ! i)). b ! j = a ! i" using b2j_elem by fastforce
  from flm_inner_ok [OF old this assms(2,3) init] show ?thesis
    by (simp add: flm_row_def st)
qed

lemma flm_fold_ok:
  assumes "alo \<le> n" "n \<le> ahi"
  shows "flm_ok a b alo ahi blo bhi n (fold (flm_row a b blo bhi) [alo..<n] (Map.empty, alo, blo, 0))"
  using assms
proof (induction n rule: dec_induct)
  case base
  then show ?case by (simp add: flm_ok_def j2len_ok_empty best_ok_def)
next
  case (step n)
  then show ?case using flm_row_ok [of a b alo ahi blo bhi n] by simp
qed

lemma flm_main_ok: "best_ok a b alo ahi blo bhi (snd (flm_main a b alo ahi blo bhi))"
proof (cases "alo \<le> ahi")
  case True
  from flm_fold_ok [OF True order_refl, of a b blo bhi] show ?thesis
    by (auto simp: flm_main_def flm_ok_def)
next
  case False
  then show ?thesis by (simp add: flm_main_def best_ok_def)
qed

lemma extend_back_ok:
  "best_ok a b alo ahi blo bhi blk \<Longrightarrow> best_ok a b alo ahi blo bhi (extend_back a b alo blo blk)"
proof (induction a b alo blo blk rule: extend_back.induct)
  case (1 a b alo blo besti bestj bestsize)
  show ?case
  proof (cases "alo < besti \<and> blo < bestj \<and> a ! (besti - 1) = b ! (bestj - 1)")
    case True
    from "1.prems" have m: "\<forall>t<bestsize. a ! (besti + t) = b ! (bestj + t)"
      and bd: "(bestsize = 0 \<and> besti = alo \<and> bestj = blo) \<or> (besti + bestsize \<le> ahi \<and> bestj + bestsize \<le> bhi)"
      by (auto simp: best_ok_def)
    have "\<forall>t<bestsize + 1. a ! (besti - 1 + t) = b ! (bestj - 1 + t)"
    proof (intro allI impI)
      fix t assume t: "t < bestsize + 1"
      show "a ! (besti - 1 + t) = b ! (bestj - 1 + t)"
      proof (cases t)
        case 0 then show ?thesis using True by simp
      next
        case (Suc u)
        then have "u < bestsize" using t by simp
        with m have "a ! (besti + u) = b ! (bestj + u)" by blast
        moreover have "besti - 1 + t = besti + u" "bestj - 1 + t = bestj + u"
          using Suc True by auto
        ultimately show ?thesis by (simp only:)
      qed
    qed
    then have "best_ok a b alo ahi blo bhi (besti - 1, bestj - 1, bestsize + 1)"
      using True bd unfolding best_ok_def by auto
    from "1.IH" [OF True this] show ?thesis
      using True by (subst extend_back.simps) simp
  next
    case False
    then show ?thesis using "1.prems" by (subst extend_back.simps) auto
  qed
qed

lemma extend_fwd_ok:
  "best_ok a b alo ahi blo bhi blk \<Longrightarrow> best_ok a b alo ahi blo bhi (extend_fwd a b ahi bhi blk)"
proof (induction a b ahi bhi blk rule: extend_fwd.induct)
  case (1 a b ahi bhi besti bestj bestsize)
  show ?case
  proof (cases "besti + bestsize < ahi \<and> bestj + bestsize < bhi
         \<and> a ! (besti + bestsize) = b ! (bestj + bestsize)")
    case True
    from "1.prems" have m: "\<forall>t<bestsize. a ! (besti + t) = b ! (bestj + t)"
      and lo: "alo \<le> besti" "blo \<le> bestj"
      by (auto simp: best_ok_def)
    have "\<forall>t<bestsize + 1. a ! (besti + t) = b ! (bestj + t)"
      using m True by (auto simp: less_Suc_eq)
    then have "best_ok a b alo ahi blo bhi (besti, bestj, bestsize + 1)"
      using True lo unfolding best_ok_def by auto
    from "1.IH" [OF True this] show ?thesis
      using True by (subst extend_fwd.simps) simp
  next
    case False
    then show ?thesis using "1.prems" by (subst extend_fwd.simps) auto
  qed
qed

lemma find_longest_match_ok:
  "best_ok a b alo ahi blo bhi (find_longest_match a b alo ahi blo bhi)"
proof -
  obtain m blk where st: "flm_main a b alo ahi blo bhi = (m, blk)" by (cases "flm_main a b alo ahi blo bhi")
  have "best_ok a b alo ahi blo bhi blk" using flm_main_ok [of a b alo ahi blo bhi] st by simp
  from extend_fwd_ok [OF extend_back_ok [OF this]] show ?thesis
    by (cases blk) (simp add: find_longest_match_def st)
qed

text \<open>
  \<^verbatim>\<open>get_matching_blocks\<close>. The queue is a stack: \<^verbatim>\<open>queue.pop()\<close> takes the entry pushed
  last, here the head of the list. The recursion ends because every pushed window is
  strictly inside the popped one.
\<close>

type_synonym window = "nat \<times> nat \<times> nat \<times> nat"
type_synonym block = "nat \<times> nat \<times> nat"

definition push_windows :: "window \<Rightarrow> block \<Rightarrow> window list \<Rightarrow> window list" where
  "push_windows w x queue =
     (case w of (alo, ahi, blo, bhi) \<Rightarrow> case x of (i, j, k) \<Rightarrow>
        (if i + k < ahi \<and> j + k < bhi then [(i + k, ahi, j + k, bhi)] else [])
        @ (if alo < i \<and> blo < j then [(alo, i, blo, j)] else [])
        @ queue)"

definition window_size :: "window \<Rightarrow> nat" where
  "window_size w = (case w of (alo, ahi, blo, bhi) \<Rightarrow> 2 * (ahi - alo) + 1)"

lemma push_windows_size:
  assumes "snd (snd (find_longest_match a b alo ahi blo bhi)) \<noteq> 0"
  shows "sum_list (map window_size
           (push_windows (alo, ahi, blo, bhi) (find_longest_match a b alo ahi blo bhi) queue))
    < sum_list (map window_size ((alo, ahi, blo, bhi) # queue))"
proof -
  obtain i j k where x: "find_longest_match a b alo ahi blo bhi = (i, j, k)"
    by (cases "find_longest_match a b alo ahi blo bhi") auto
  have "best_ok a b alo ahi blo bhi (i, j, k)"
    using find_longest_match_ok [of a b alo ahi blo bhi] x by simp
  then have "alo \<le> i" "i + k \<le> ahi" using assms x by (auto simp: best_ok_def)
  then show ?thesis using assms x by (auto simp: push_windows_def window_size_def)
qed

function mb_loop :: "'a list \<Rightarrow> 'a list \<Rightarrow> window list \<Rightarrow> block list \<Rightarrow> block list" where
  "mb_loop a b [] matching_blocks = matching_blocks"
| "mb_loop a b ((alo, ahi, blo, bhi) # queue) matching_blocks =
     (let x = find_longest_match a b alo ahi blo bhi in
      if snd (snd x) \<noteq> 0
      then mb_loop a b (push_windows (alo, ahi, blo, bhi) x queue) (matching_blocks @ [x])
      else mb_loop a b queue matching_blocks)"
  by pat_completeness auto
termination
  by (relation "measure (\<lambda>(a, b, queue, mbs). sum_list (map window_size queue))")
     (use push_windows_size in \<open>auto simp: window_size_def\<close>)

declare mb_loop.simps [simp del]

text \<open>The loop that collapses adjacent equal blocks; its state is \<^verbatim>\<open>(i1, j1, k1, non_adjacent)\<close>.\<close>

fun collapse_step :: "block \<Rightarrow> nat \<times> nat \<times> nat \<times> block list \<Rightarrow> nat \<times> nat \<times> nat \<times> block list" where
  "collapse_step (i2, j2, k2) (i1, j1, k1, non_adjacent) =
     (if i1 + k1 = i2 \<and> j1 + k1 = j2 then (i1, j1, k1 + k2, non_adjacent)
      else (i2, j2, k2, (if k1 \<noteq> 0 then non_adjacent @ [(i1, j1, k1)] else non_adjacent)))"

definition get_matching_blocks :: "'a list \<Rightarrow> 'a list \<Rightarrow> block list" where
  "get_matching_blocks a b =
     (let la = length a; lb = length b;
          matching_blocks = sort (mb_loop a b [(0, la, 0, lb)] [])
      in case fold collapse_step matching_blocks (0, 0, 0, []) of
           (i1, j1, k1, non_adjacent) \<Rightarrow>
             (if k1 \<noteq> 0 then non_adjacent @ [(i1, j1, k1)] else non_adjacent) @ [(la, lb, 0)])"

datatype tag = Replace | Delete | Insert | Equal

type_synonym opcode = "tag \<times> nat \<times> nat \<times> nat \<times> nat"

text \<open>\<^verbatim>\<open>get_opcodes\<close>; the state of its loop is \<^verbatim>\<open>(i, j, answer)\<close>.\<close>

fun opcode_step :: "block \<Rightarrow> nat \<times> nat \<times> opcode list \<Rightarrow> nat \<times> nat \<times> opcode list" where
  "opcode_step (ai, bj, sz) (i, j, answer) =
     (let answer1 =
            (if i < ai \<and> j < bj then answer @ [(Replace, i, ai, j, bj)]
             else if i < ai then answer @ [(Delete, i, ai, j, bj)]
             else if j < bj then answer @ [(Insert, i, ai, j, bj)]
             else answer)
      in (ai + sz, bj + sz,
          if sz \<noteq> 0 then answer1 @ [(Equal, ai, ai + sz, bj, bj + sz)] else answer1))"

definition get_opcodes :: "'a list \<Rightarrow> 'a list \<Rightarrow> opcode list" where
  "get_opcodes a b = snd (snd (fold opcode_step (get_matching_blocks a b) (0, 0, [])))"

subsection \<open>\<^verbatim>\<open>_word_diff_html\<close> and \<^verbatim>\<open>_split_sentences\<close>\<close>

definition terms_of :: "platform \<Rightarrow> string list \<Rightarrow> string list" where
  "terms_of P ts = filter (\<lambda>t. py_strip P t \<noteq> [] \<and> \<not> py_isspace P t) ts"

definition escaped :: "string list \<Rightarrow> string" where
  "escaped ts = concat (map html_escape ts)"

definition ins_open :: string where
  "ins_open = ''<ins class='' @ [CHR 0x22] @ ''diff-add'' @ [CHR 0x22] @ ''>''"

definition del_open :: string where
  "del_open = ''<del class='' @ [CHR 0x22] @ ''diff-del'' @ [CHR 0x22] @ ''>''"

text \<open>The state of the loop over the opcodes is \<^verbatim>\<open>(pieces, added, deleted)\<close>.\<close>

fun word_diff_step ::
  "platform \<Rightarrow> string list \<Rightarrow> string list \<Rightarrow> opcode \<Rightarrow>
   string list \<times> string list \<times> string list \<Rightarrow> string list \<times> string list \<times> string list" where
  "word_diff_step P a b (tg, i1, i2, j1, j2) (pieces, added, deleted) =
     (case tg of
        Equal \<Rightarrow> (pieces @ [escaped (slice a i1 i2)], added, deleted)
      | Insert \<Rightarrow>
          (pieces @ [ins_open @ escaped (slice b j1 j2) @ ''</ins>''],
           added @ terms_of P (slice b j1 j2), deleted)
      | Delete \<Rightarrow>
          (pieces @ [del_open @ escaped (slice a i1 i2) @ ''</del>''],
           added, deleted @ terms_of P (slice a i1 i2))
      | Replace \<Rightarrow>
          (pieces @ [del_open @ escaped (slice a i1 i2) @ ''</del>''
                     @ ins_open @ escaped (slice b j1 j2) @ ''</ins>''],
           added @ terms_of P (slice b j1 j2), deleted @ terms_of P (slice a i1 i2)))"

definition word_diff_html :: "platform \<Rightarrow> string \<Rightarrow> string \<Rightarrow> string \<times> string list \<times> string list" where
  "word_diff_html P old new =
     (let a = tokenize_keep_spaces P old; b = tokenize_keep_spaces P new
      in case fold (word_diff_step P a b) (get_opcodes a b) ([], [], []) of
           (pieces, added, deleted) \<Rightarrow> (concat pieces, added, deleted))"

text \<open>
  \<^verbatim>\<open>re.split(r'(?<=[\.\!\?])\s+|\n+', s or "")\<close> without its empty parts. The scan keeps
  the character before the position (for the lookbehind) and the part read so far; a
  separator is the longest run of \<^verbatim>\<open>\s\<close> after one of \<^verbatim>\<open>. ! ?\<close>, or else the longest run
  of newlines.
\<close>

definition newline :: char where
  "newline = CHR 0x0A"

function split_scan :: "platform \<Rightarrow> char option \<Rightarrow> string \<Rightarrow> string \<Rightarrow> string list" where
  "split_scan P prev cur [] = [cur]"
| "split_scan P prev cur (c # cs) =
     (if prev \<in> {Some CHR ''.'', Some CHR ''!'', Some CHR ''?''} \<and> is_space P c then
        cur # split_scan P (Some (last (c # takeWhile (is_space P) cs))) []
                (dropWhile (is_space P) cs)
      else if c = newline then
        cur # split_scan P (Some newline) [] (dropWhile (\<lambda>x. x = newline) cs)
      else split_scan P (Some c) (cur @ [c]) cs)"
  by pat_completeness auto
termination
  by (relation "measure (\<lambda>(P, prev, cur, s). length s)")
     (auto simp: le_imp_less_Suc length_dropWhile_le)

definition split_sentences :: "platform \<Rightarrow> string \<Rightarrow> string list" where
  "split_sentences P s = filter (\<lambda>p. p \<noteq> []) (split_scan P None [] s)"

section \<open>The Normalized Document\<close>

text \<open>
  The two documents are dictionaries built by the extraction layer. They are modelled by
  records with one field per key the detector reads. A key the detector reads with
  \<^verbatim>\<open>d[key]\<close> and that the extraction layer always writes is a plain field; a key read with
  \<^verbatim>\<open>d.get(key)\<close> is an \<open>option\<close>, \<open>None\<close> when the key is absent or holds \<^verbatim>\<open>None\<close>; a list
  read with \<^verbatim>\<open>d.get(key, [])\<close> is empty when the key is absent. The document's
  \<^verbatim>\<open>'type'\<close> is read with \<^verbatim>\<open>d['type']\<close> and may be missing: \<open>doc_type\<close> is \<open>None\<close> then and
  the read raises \<^verbatim>\<open>KeyError\<close>. The float lists of an annotation (\<^verbatim>\<open>rect\<close>,
  \<^verbatim>\<open>quadpoints\<close>, \<^verbatim>\<open>color\<close>) and the value of a spreadsheet cell stay untyped values.
\<close>

record run =
  run_text :: "string option"
  run_bold :: "bool option"
  run_italic :: "bool option"
  run_underline :: "bool option"
  run_font_name :: "string option"
  run_font_size :: "rat option"
  run_font_color :: "string option"

record para =
  para_text :: string
  para_style :: "string option"
  para_runs :: "run list"

record table_cell =
  tcell_text :: "string option"

record table =
  table_rows :: "table_cell list list"

record image =
  image_size :: "(int \<times> int) option"
  image_data :: string

record page =
  page_text :: "string option"

record annotation =
  annot_id :: "string option"
  annot_page_number :: "int option"
  annot_subtype :: "string option"
  annot_rect :: pyval
  annot_quadpoints :: pyval
  annot_contents :: "string option"
  annot_author :: "string option"
  annot_subject :: "string option"
  annot_color :: pyval

record cell_font =
  font_name :: "string option"
  font_size :: "rat option"
  font_bold :: "bool option"
  font_italic :: "bool option"
  font_color :: "string option"

record cell_fill =
  fill_fg_color :: "string option"

record cell_border =
  border_left :: "string option"
  border_right :: "string option"
  border_top :: "string option"
  border_bottom :: "string option"

record cell =
  cell_coordinate :: string
  cell_value :: pyval
  cell_font :: "cell_font option"
  cell_fill :: "cell_fill option"
  cell_border :: "cell_border option"

record sheet =
  sheet_name :: string
  sheet_cells :: "cell list list"

record document =
  doc_type :: "string option"
  paragraphs :: "para list"
  tables :: "table list"
  images :: "image list"
  pages :: "page list"
  annotations :: "annotation list"
  sheets :: "sheet list"

subsection \<open>Reading fields as Python values\<close>

definition opt_str :: "string option \<Rightarrow> pyval" where
  "opt_str v = (case v of None \<Rightarrow> PNone | Some s \<Rightarrow> PStr s)"

definition opt_bool :: "bool option \<Rightarrow> pyval" where
  "opt_bool v = (case v of None \<Rightarrow> PNone | Some b \<Rightarrow> PBool b)"

definition opt_float :: "rat option \<Rightarrow> pyval" where
  "opt_float v = (case v of None \<Rightarrow> PNone | Some q \<Rightarrow> PFloat q)"

definition opt_int :: "int option \<Rightarrow> pyval" where
  "opt_int v = (case v of None \<Rightarrow> PNone | Some i \<Rightarrow> PInt i)"

definition opt_size :: "(int \<times> int) option \<Rightarrow> pyval" where
  "opt_size v = (case v of None \<Rightarrow> PNone | Some (w, h) \<Rightarrow> PList [PInt w, PInt h])"

text \<open>\<^verbatim>\<open>v or ""\<close> on an optional string.\<close>

definition or_empty :: "string option \<Rightarrow> string" where
  "or_empty v = (case v of None \<Rightarrow> [] | Some s \<Rightarrow> s)"

text \<open>
  \<^verbatim>\<open>x == y\<close> on scalar values: booleans, integers and floats compare by their numeric
  value, everything else by structure.
\<close>

fun py_num :: "pyval \<Rightarrow> rat option" where
  "py_num (PBool b) = Some (if b then 1 else 0)"
| "py_num (PInt i) = Some (rat_of_int i)"
| "py_num (PFloat q) = Some q"
| "py_num v = None"

definition py_eq :: "pyval \<Rightarrow> pyval \<Rightarrow> bool" where
  "py_eq x y = (case (py_num x, py_num y) of (Some p, Some q) \<Rightarrow> p = q | _ \<Rightarrow> x = y)"

definition join :: "string \<Rightarrow> string list \<Rightarrow> string" where
  "join sep xs = (case xs of [] \<Rightarrow> [] | y # ys \<Rightarrow> y @ concat (map (\<lambda>z. sep @ z) ys))"

text \<open>The arrow of the formatting messages, U+2192, as its UTF-8 bytes.\<close>

definition arrow :: string where
  "arrow = [CHR 0xE2, CHR 0x86, CHR 0x92]"

text \<open>
  A dictionary comprehension \<^verbatim>\<open>{key(x): x for x in xs}\<close>: a later entry replaces the value
  of an earlier one with the same key and keeps its place in the iteration order.
\<close>

definition dict_by :: "('a \<Rightarrow> 'k) \<Rightarrow> 'a list \<Rightarrow> ('k \<times> 'a) list" where
  "dict_by key xs = fold (\<lambda>x m. AList.update (key x) x m) xs []"

section \<open>The change detector\<close>

subsection \<open>Text\<close>

definition docx_text_at :: "para list \<Rightarrow> nat \<Rightarrow> string" where
  "docx_text_at ps i = (if i < length ps then para_text (ps ! i) else [])"

text \<open>The body of the loop of \<^verbatim>\<open>_detect_docx_text_changes\<close> at index \<open>i\<close>.\<close>

definition docx_text_change :: "platform \<Rightarrow> para list \<Rightarrow> para list \<Rightarrow> nat \<Rightarrow> change list" where
  "docx_text_change P op rp i =
     (let ot = docx_text_at op i; nt = docx_text_at rp i in
      if ot \<noteq> [] \<and> nt = [] then
        [[(''type'', PStr ''text_change''), (''change_type'', PStr ''deleted''),
          (''content'', PStr ot), (''paragraph_index'', PInt (int i)),
          (''document_type'', PStr ''docx'')]]
      else if nt \<noteq> [] \<and> ot = [] then
        [[(''type'', PStr ''text_change''), (''change_type'', PStr ''added''),
          (''content'', PStr nt), (''paragraph_index'', PInt (int i)),
          (''document_type'', PStr ''docx'')]]
      else if ot \<noteq> nt then
        (case word_diff_html P ot nt of (diff_html, added, deleted) \<Rightarrow>
          [[(''type'', PStr ''text_change''), (''change_type'', PStr ''modified''),
            (''content_html'', PStr diff_html), (''old_text'', PStr ot), (''new_text'', PStr nt),
            (''added_terms'', PList (map PStr added)), (''deleted_terms'', PList (map PStr deleted)),
            (''paragraph_index'', PInt (int i)), (''document_type'', PStr ''docx'')]])
      else [])"

definition detect_docx_text_changes :: "platform \<Rightarrow> document \<Rightarrow> document \<Rightarrow> change list" where
  "detect_docx_text_changes P original revised =
     (let op = paragraphs original; rp = paragraphs revised;
          n = max (length op) (length rp)
      in concat (map (docx_text_change P op rp) [0..<n]))"

definition pdf_sentence :: "string \<Rightarrow> string \<Rightarrow> nat \<Rightarrow> change" where
  "pdf_sentence change_type sent i =
     [(''type'', PStr ''text_change''), (''change_type'', PStr change_type),
      (''content'', PStr sent), (''page_number'', PInt (int i + 1)),
      (''document_type'', PStr ''pdf'')]"

definition pdf_modified :: "platform \<Rightarrow> nat \<Rightarrow> string \<times> string \<Rightarrow> change" where
  "pdf_modified P i p =
     (case p of (s_old, s_new) \<Rightarrow>
      case word_diff_html P s_old s_new of (diff_html, added, deleted) \<Rightarrow>
        [(''type'', PStr ''text_change''), (''change_type'', PStr ''modified''),
         (''content_html'', PStr diff_html), (''old_text'', PStr s_old), (''new_text'', PStr s_new),
         (''added_terms'', PList (map PStr added)), (''deleted_terms'', PList (map PStr deleted)),
         (''page_number'', PInt (int i + 1)), (''document_type'', PStr ''pdf'')])"

text \<open>The records of one opcode of page \<open>i\<close>.\<close>

fun pdf_opcode_changes :: "platform \<Rightarrow> string list \<Rightarrow> string list \<Rightarrow> nat \<Rightarrow> opcode \<Rightarrow> change list" where
  "pdf_opcode_changes P a b i (tg, i1, i2, j1, j2) =
     (case tg of
        Equal \<Rightarrow> []
      | Delete \<Rightarrow> map (\<lambda>sent. pdf_sentence ''deleted'' sent i) (slice a i1 i2)
      | Insert \<Rightarrow> map (\<lambda>sent. pdf_sentence ''added'' sent i) (slice b j1 j2)
      | Replace \<Rightarrow>
          (let old_seg = slice a i1 i2; new_seg = slice b j1 j2;
               k = min (length old_seg) (length new_seg)
           in map (pdf_modified P i) (zip (take k old_seg) (take k new_seg))
              @ map (\<lambda>sent. pdf_sentence ''deleted'' sent i) (drop k old_seg)
              @ map (\<lambda>sent. pdf_sentence ''added'' sent i) (drop k new_seg)))"

definition pdf_text_at :: "page list \<Rightarrow> nat \<Rightarrow> string" where
  "pdf_text_at ps i = or_empty (if i < length ps then page_text (ps ! i) else Some [])"

definition pdf_page_changes :: "platform \<Rightarrow> page list \<Rightarrow> page list \<Rightarrow> nat \<Rightarrow> change list" where
  "pdf_page_changes P op rp i =
     (let a = split_sentences P (pdf_text_at op i); b = split_sentences P (pdf_text_at rp i)
      in concat (map (pdf_opcode_changes P a b i) (get_opcodes a b)))"

definition detect_pdf_text_changes :: "platform \<Rightarrow> document \<Rightarrow> document \<Rightarrow> change list" where
  "detect_pdf_text_changes P original revised =
     (let op = pages original; rp = pages revised; m = max (length op) (length rp)
      in concat (map (pdf_page_changes P op rp) [0..<m]))"

text \<open>\<^verbatim>\<open>_to_str\<close>.\<close>

definition to_str :: "platform \<Rightarrow> pyval \<Rightarrow> string" where
  "to_str P v = (if v = PNone then [] else py_str P v)"

definition cells_of :: "sheet \<Rightarrow> (string \<times> cell) list" where
  "cells_of s = dict_by cell_coordinate (concat (sheet_cells s))"

text \<open>The body of the loop over the coordinates of one sheet name.\<close>

definition xlsx_cell_change ::
  "platform \<Rightarrow> string \<Rightarrow> (string \<times> cell) list \<Rightarrow> (string \<times> cell) list \<Rightarrow> string \<Rightarrow> change list" where
  "xlsx_cell_change P sname ocells rcells coord =
     (case map_of ocells coord of
        None \<Rightarrow>
          (let val = to_str P (case map_of rcells coord of Some rc \<Rightarrow> cell_value rc | None \<Rightarrow> PStr [])
           in [[(''type'', PStr ''cell_added''), (''change_type'', PStr ''added''),
                (''content'', PStr val), (''value'', PStr val), (''coordinate'', PStr coord),
                (''sheet_name'', PStr sname), (''document_type'', PStr ''xlsx'')]])
      | Some oc \<Rightarrow>
          (case map_of rcells coord of
             None \<Rightarrow>
               (let val = to_str P (cell_value oc)
                in [[(''type'', PStr ''cell_deleted''), (''change_type'', PStr ''deleted''),
                     (''content'', PStr val), (''value'', PStr val), (''coordinate'', PStr coord),
                     (''sheet_name'', PStr sname), (''document_type'', PStr ''xlsx'')]])
           | Some rc \<Rightarrow>
               (let old_val = to_str P (cell_value oc); new_val = to_str P (cell_value rc)
                in if old_val \<noteq> new_val then
                     (case word_diff_html P old_val new_val of (diff_html, added, deleted) \<Rightarrow>
                       [[(''type'', PStr ''cell_modified''), (''change_type'', PStr ''modified''),
                         (''coordinate'', PStr coord), (''sheet_name'', PStr sname),
                         (''document_type'', PStr ''xlsx''),
                         (''old_value'', PStr old_val), (''new_value'', PStr new_val),
                         (''content_html'', PStr diff_html),
                         (''added_terms'', PList (map PStr added)),
                         (''deleted_terms'', PList (map PStr deleted))]])
                   else [])))"

text \<open>
  The body of the loop over the sheet names. \<^verbatim>\<open>next((s for s in sheets if s['name'] ==
  sheet_name), None)\<close> is the first sheet of that name.
\<close>

definition xlsx_sheet_changes :: "platform \<Rightarrow> sheet list \<Rightarrow> sheet list \<Rightarrow> string \<Rightarrow> change list" where
  "xlsx_sheet_changes P original_sheets revised_sheets name =
     (case find (\<lambda>s. sheet_name s = name) original_sheets of
        None \<Rightarrow>
          [[(''type'', PStr ''sheet_added''), (''change_type'', PStr ''added''),
            (''content'', PStr (''Sheet added: '' @ name)), (''sheet_name'', PStr name),
            (''document_type'', PStr ''xlsx'')]]
      | Some osheet \<Rightarrow>
          (case find (\<lambda>s. sheet_name s = name) revised_sheets of
             None \<Rightarrow>
               [[(''type'', PStr ''sheet_deleted''), (''change_type'', PStr ''deleted''),
                 (''content'', PStr (''Sheet deleted: '' @ name)), (''sheet_name'', PStr name),
                 (''document_type'', PStr ''xlsx'')]]
           | Some rsheet \<Rightarrow>
               (let ocells = cells_of osheet; rcells = cells_of rsheet;
                    allc = remdups (map fst ocells @ map fst rcells)
                in concat (map (xlsx_cell_change P name ocells rcells) allc))))"

text \<open>
  Python iterates a set in an order it does not specify. The sets of sheet names, of
  coordinates and of annotation keys are modelled as the list of their elements in the
  order of first occurrence; no property below depends on that order.
\<close>

definition detect_xlsx_text_changes :: "platform \<Rightarrow> document \<Rightarrow> document \<Rightarrow> change list" where
  "detect_xlsx_text_changes P original revised =
     (let original_sheets = sheets original; revised_sheets = sheets revised;
          sheet_names = remdups (map sheet_name original_sheets @ map sheet_name revised_sheets)
      in concat (map (xlsx_sheet_changes P original_sheets revised_sheets) sheet_names))"

text \<open>
  \<^verbatim>\<open>original['type'] == k and revised['type'] == k\<close>: the right operand is read only when
  the left comparison holds.
\<close>

definition get_type :: "document \<Rightarrow> error + string" where
  "get_type d = (case doc_type d of None \<Rightarrow> Inl (KeyError ''type'') | Some t \<Rightarrow> Inr t)"

definition both_of_type :: "document \<Rightarrow> document \<Rightarrow> string \<Rightarrow> error + bool" where
  "both_of_type original revised k =
     ebind (get_type original) (\<lambda>t.
       if t = k then ebind (get_type revised) (\<lambda>u. Inr (u = k)) else Inr False)"

definition detect_text_changes :: "platform \<Rightarrow> document \<Rightarrow> document \<Rightarrow> error + change list" where
  "detect_text_changes P original revised =
     ebind (both_of_type original revised ''docx'') (\<lambda>docx.
       if docx then Inr (detect_docx_text_changes P original revised)
       else ebind (both_of_type original revised ''pdf'') (\<lambda>pdf.
         if pdf then Inr (detect_pdf_text_changes P original revised)
         else ebind (both_of_type original revised ''xlsx'') (\<lambda>xlsx.
           if xlsx then Inr (detect_xlsx_text_changes P original revised)
           else Inr [])))"

subsection \<open>Annotations\<close>

text \<open>
  \<^verbatim>\<open>float(x)\<close>, \<open>None\<close> when it raises; and the elements a \<^verbatim>\<open>for\<close> loop reads from a
  value, \<open>None\<close> when the value is not iterable.
\<close>

fun py_float :: "platform \<Rightarrow> pyval \<Rightarrow> rat option" where
  "py_float P (PBool b) = Some (if b then 1 else 0)"
| "py_float P (PInt i) = Some (rat_of_int i)"
| "py_float P (PFloat q) = Some q"
| "py_float P (PStr s) = parse_float P s"
| "py_float P v = None"

fun py_iter :: "pyval \<Rightarrow> pyval list option" where
  "py_iter (PList xs) = Some xs"
| "py_iter (PStr s) = Some (map (\<lambda>c. PStr [c]) s)"
| "py_iter (PDict kvs) = Some (map (\<lambda>kv. PStr (fst kv)) kvs)"
| "py_iter v = None"

text \<open>
  \<^verbatim>\<open>_norm_floats\<close>: the result is \<open>Inr\<close> of what the function returns (\<open>None\<close> for
  Python's \<^verbatim>\<open>None\<close>), \<open>Inl\<close> of the exception if one left the function. The \<^verbatim>\<open>try\<close> block
  catches every \<^verbatim>\<open>Exception\<close>, so the handler returns \<^verbatim>\<open>None\<close> where the iteration or a
  conversion raises.
\<close>

definition norm_floats_try :: "platform \<Rightarrow> pyval \<Rightarrow> error + rat list" where
  "norm_floats_try P v =
     (case py_iter v of
        None \<Rightarrow> Inl TypeError
      | Some xs \<Rightarrow>
          if list_all (\<lambda>x. py_float P x \<noteq> None) xs
          then Inr (map (\<lambda>x. round3 P (the (py_float P x))) xs)
          else Inl ValueError)"

definition norm_floats_res :: "platform \<Rightarrow> pyval \<Rightarrow> error + rat list option" where
  "norm_floats_res P v =
     (if v = PNone then Inr None
      else case norm_floats_try P v of Inl e \<Rightarrow> Inr None | Inr xs \<Rightarrow> Inr (Some xs))"

definition norm_floats :: "platform \<Rightarrow> pyval \<Rightarrow> rat list option" where
  "norm_floats P v = (case norm_floats_res P v of Inl e \<Rightarrow> None | Inr r \<Rightarrow> r)"

text \<open>\<^verbatim>\<open>_annot_key\<close>. The f-string writes a missing page number as \<^verbatim>\<open>None\<close>.\<close>

definition annot_key :: "platform \<Rightarrow> annotation \<Rightarrow> string" where
  "annot_key P a =
     (let nm = or_empty (annot_id a) in
      if nm \<noteq> [] then nm
      else
        (let page = annot_page_number a;
             subtype = or_empty (annot_subtype a);
             rect = (case norm_floats P (annot_rect a) of None \<Rightarrow> [] | Some xs \<Rightarrow> xs);
             contents = take 64 (or_empty (annot_contents a));
             base = py_str P (opt_int page) @ '':'' @ subtype @ '':''
                    @ join '','' (map (str_float P) rect) @ '':'' @ contents
         in ''AUTO-'' @ take 10 (md5_hexdigest P base)))"

text \<open>
  \<^verbatim>\<open>_compute_annot_fallback_id\<close> of \<^verbatim>\<open>src/0914_backup/document_parser.py\<close>, the fallback
  ID the extraction layer gives an annotation without a name.
\<close>

definition compute_annot_fallback_id :: "platform \<Rightarrow> int \<Rightarrow> string \<Rightarrow> rat list \<Rightarrow> string \<Rightarrow> string" where
  "compute_annot_fallback_id P page_number subtype rect contents =
     (let base = str_int page_number @ '':'' @ subtype @ '':''
                 @ join '','' (map (fmt_2f P) rect) @ '':'' @ contents;
          digest = take 10 (md5_hexdigest P base)
      in ''AUTO-'' @ str_int page_number @ ''-'' @ subtype @ ''-'' @ digest)"

text \<open>\<^verbatim>\<open>a.get('id') or k\<close>.\<close>

definition id_or :: "annotation \<Rightarrow> string \<Rightarrow> pyval" where
  "id_or a k = (if or_empty (annot_id a) \<noteq> [] then PStr (or_empty (annot_id a)) else PStr k)"

definition annot_record :: "string \<Rightarrow> string \<Rightarrow> annotation \<Rightarrow> change" where
  "annot_record change_type k a =
     [(''type'', PStr ''annotation_change''), (''change_type'', PStr change_type),
      (''document_type'', PStr ''pdf''),
      (''id'', id_or a k),
      (''page_number'', opt_int (annot_page_number a)),
      (''subtype'', opt_str (annot_subtype a)),
      (''content'', opt_str (annot_contents a)),
      (''rect'', annot_rect a),
      (''quadpoints'', annot_quadpoints a),
      (''author'', opt_str (annot_author a)),
      (''subject'', opt_str (annot_subject a)),
      (''color'', annot_color a)]"

text \<open>The list \<^verbatim>\<open>diffs\<close> of the fields that changed between two annotations of one key.\<close>

definition annot_diffs :: "platform \<Rightarrow> annotation \<Rightarrow> annotation \<Rightarrow> string list" where
  "annot_diffs P o_annot r_annot =
     (if or_empty (annot_contents o_annot) \<noteq> or_empty (annot_contents r_annot) then [''contents''] else [])
     @ (if norm_floats P (annot_rect o_annot) \<noteq> norm_floats P (annot_rect r_annot) then [''rect''] else [])
     @ (if norm_floats P (annot_quadpoints o_annot) \<noteq> norm_floats P (annot_quadpoints r_annot)
        then [''quadpoints''] else [])
     @ (if norm_floats P (annot_color o_annot) \<noteq> norm_floats P (annot_color r_annot) then [''color''] else [])
     @ (if or_empty (annot_subtype o_annot) \<noteq> or_empty (annot_subtype r_annot) then [''subtype''] else [])
     @ (if or_empty (annot_author o_annot) \<noteq> or_empty (annot_author r_annot) then [''author''] else [])
     @ (if or_empty (annot_subject o_annot) \<noteq> or_empty (annot_subject r_annot) then [''subject''] else [])"

definition annot_snapshot :: "string \<Rightarrow> annotation \<Rightarrow> pyval" where
  "annot_snapshot contents a =
     PDict [(''contents'', PStr contents), (''rect'', annot_rect a),
            (''quadpoints'', annot_quadpoints a), (''color'', annot_color a),
            (''author'', opt_str (annot_author a)), (''subject'', opt_str (annot_subject a)),
            (''subtype'', opt_str (annot_subtype a))]"

text \<open>The body of the loop over the keys of both maps.\<close>

definition annot_modified ::
  "platform \<Rightarrow> (string \<times> annotation) list \<Rightarrow> (string \<times> annotation) list \<Rightarrow> string \<Rightarrow> change list" where
  "annot_modified P omap rmap k =
     (case (map_of omap k, map_of rmap k) of
        (Some o_annot, Some r_annot) \<Rightarrow>
          (let otext = or_empty (annot_contents o_annot);
               rtext = or_empty (annot_contents r_annot);
               diff_html = (if otext \<noteq> rtext then PStr (fst (word_diff_html P otext rtext)) else PNone);
               diffs = annot_diffs P o_annot r_annot
           in if diffs \<noteq> [] then
                [[(''type'', PStr ''annotation_change''), (''change_type'', PStr ''modified''),
                  (''document_type'', PStr ''pdf''),
                  (''id'', id_or r_annot k),
                  (''page_number'', opt_int (annot_page_number r_annot)),
                  (''subtype'', opt_str (annot_subtype r_annot)),
                  (''content_html'', diff_html),
                  (''old'', annot_snapshot otext o_annot),
                  (''new'', annot_snapshot rtext r_annot),
                  (''changed_fields'', PList (map PStr diffs))]]
              else [])
      | _ \<Rightarrow> [])"

definition detect_annotation_changes :: "platform \<Rightarrow> document \<Rightarrow> document \<Rightarrow> error + change list" where
  "detect_annotation_changes P original revised =
     ebind (get_type original) (\<lambda>t. ebind (get_type revised) (\<lambda>u.
       if \<not> (t = u \<and> u = ''pdf'') then Inr []
       else
         (let olist = annotations original; rlist = annotations revised;
              omap = dict_by (annot_key P) olist;
              rmap = dict_by (annot_key P) rlist
          in Inr (map (\<lambda>(k, a). annot_record ''added'' k a)
                    (filter (\<lambda>(k, a). k \<notin> fst ` set omap) rmap)
                  @ map (\<lambda>(k, a). annot_record ''deleted'' k a)
                      (filter (\<lambda>(k, a). k \<notin> fst ` set rmap) omap)
                  @ concat (map (annot_modified P omap rmap)
                      (filter (\<lambda>k. k \<in> fst ` set rmap) (map fst omap)))))))"

subsection \<open>Formatting\<close>

definition run_get :: "run \<Rightarrow> string \<Rightarrow> pyval" where
  "run_get r attr =
     (if attr = ''bold'' then opt_bool (run_bold r)
      else if attr = ''italic'' then opt_bool (run_italic r)
      else if attr = ''underline'' then opt_bool (run_underline r)
      else if attr = ''font_name'' then opt_str (run_font_name r)
      else if attr = ''font_size'' then opt_float (run_font_size r)
      else if attr = ''font_color'' then opt_str (run_font_color r)
      else if attr = ''text'' then opt_str (run_text r)
      else PNone)"

text \<open>The message \<^verbatim>\<open>f"{label}: {x} {arrow} {y}"\<close> of a formatting difference.\<close>

definition attr_line :: "platform \<Rightarrow> string \<Rightarrow> pyval \<Rightarrow> pyval \<Rightarrow> string" where
  "attr_line P label x y = label @ '': '' @ py_str P x @ '' '' @ arrow @ '' '' @ py_str P y"

definition compare_run_formatting :: "platform \<Rightarrow> run \<Rightarrow> run \<Rightarrow> string list" where
  "compare_run_formatting P orig_run rev_run =
     concat (map (\<lambda>attr.
         if \<not> py_eq (run_get orig_run attr) (run_get rev_run attr)
         then [attr_line P attr (run_get orig_run attr) (run_get rev_run attr)]
         else [])
       [''bold'', ''italic'', ''underline'', ''font_name'', ''font_size'', ''font_color''])"

definition docx_run_change :: "platform \<Rightarrow> nat \<Rightarrow> nat \<times> run \<times> run \<Rightarrow> change list" where
  "docx_run_change P i jr =
     (case jr of (j, orun, rrun) \<Rightarrow>
        if run_text orun = run_text rrun then
          (let fmt = compare_run_formatting P orun rrun in
           if fmt \<noteq> [] then
             [[(''type'', PStr ''run_formatting_change''), (''paragraph_index'', PInt (int i)),
               (''run_index'', PInt (int j)), (''text'', opt_str (run_text orun)),
               (''changes'', PList (map PStr fmt)), (''document_type'', PStr ''docx'')]]
           else [])
        else [])"

definition docx_para_formatting :: "platform \<Rightarrow> nat \<times> para \<times> para \<Rightarrow> change list" where
  "docx_para_formatting P ip =
     (case ip of (i, orig_para, rev_para) \<Rightarrow>
        (if para_style orig_para \<noteq> para_style rev_para then
           [[(''type'', PStr ''paragraph_style_change''), (''paragraph_index'', PInt (int i)),
             (''old_style'', opt_str (para_style orig_para)),
             (''new_style'', opt_str (para_style rev_para)),
             (''document_type'', PStr ''docx'')]]
         else [])
        @ concat (map (docx_run_change P i)
            (enumerate 0 (zip (para_runs orig_para) (para_runs rev_para)))))"

definition detect_docx_formatting_changes :: "platform \<Rightarrow> document \<Rightarrow> document \<Rightarrow> change list" where
  "detect_docx_formatting_changes P original revised =
     concat (map (docx_para_formatting P)
       (enumerate 0 (zip (paragraphs original) (paragraphs revised))))"

text \<open>
  \<^verbatim>\<open>of, rf = oc.get('font', {}), rc.get('font', {})\<close> and \<^verbatim>\<open>of.get(attr)\<close>: an absent
  descriptor reads as \<^verbatim>\<open>None\<close> at every attribute.
\<close>

definition font_get :: "cell_font option \<Rightarrow> string \<Rightarrow> pyval" where
  "font_get f attr =
     (case f of
        None \<Rightarrow> PNone
      | Some ft \<Rightarrow>
          if attr = ''name'' then opt_str (font_name ft)
          else if attr = ''size'' then opt_float (font_size ft)
          else if attr = ''bold'' then opt_bool (font_bold ft)
          else if attr = ''italic'' then opt_bool (font_italic ft)
          else if attr = ''color'' then opt_str (font_color ft)
          else PNone)"

definition fill_get :: "cell_fill option \<Rightarrow> pyval" where
  "fill_get f = (case f of None \<Rightarrow> PNone | Some fl \<Rightarrow> opt_str (fill_fg_color fl))"

definition border_get :: "cell_border option \<Rightarrow> string \<Rightarrow> pyval" where
  "border_get b s =
     (case b of
        None \<Rightarrow> PNone
      | Some bd \<Rightarrow>
          if s = ''left'' then opt_str (border_left bd)
          else if s = ''right'' then opt_str (border_right bd)
          else if s = ''top'' then opt_str (border_top bd)
          else if s = ''bottom'' then opt_str (border_bottom bd)
          else PNone)"

definition fmt_line :: "platform \<Rightarrow> string \<Rightarrow> pyval \<Rightarrow> pyval \<Rightarrow> string list" where
  "fmt_line P label x y =
     (if \<not> py_eq x y then [attr_line P label x y] else [])"

definition compare_cell_formatting :: "platform \<Rightarrow> cell \<Rightarrow> cell \<Rightarrow> string list" where
  "compare_cell_formatting P oc rc =
     concat (map (\<lambda>attr. fmt_line P (''font_'' @ attr)
                    (font_get (cell_font oc) attr) (font_get (cell_font rc) attr))
               [''name'', ''size'', ''bold'', ''italic'', ''color''])
     @ fmt_line P ''fill_color'' (fill_get (cell_fill oc)) (fill_get (cell_fill rc))
     @ concat (map (\<lambda>s. fmt_line P (''border_'' @ s)
                      (border_get (cell_border oc) s) (border_get (cell_border rc) s))
                 [''left'', ''right'', ''top'', ''bottom''])"

text \<open>The body of the loop over \<^verbatim>\<open>ocells.items()\<close> of one pair of sheets.\<close>

definition xlsx_cell_formatting ::
  "platform \<Rightarrow> string \<Rightarrow> (string \<times> cell) list \<Rightarrow> string \<times> cell \<Rightarrow> change list" where
  "xlsx_cell_formatting P sname rcells item =
     (case item of (coord, oc) \<Rightarrow>
        (case map_of rcells coord of
           None \<Rightarrow> []
         | Some rc \<Rightarrow>
             if py_eq (cell_value oc) (cell_value rc) then
               (let fmt = compare_cell_formatting P oc rc in
                if fmt \<noteq> [] then
                  [[(''type'', PStr ''cell_formatting_change''), (''coordinate'', PStr coord),
                    (''sheet_name'', PStr sname), (''changes'', PList (map PStr fmt)),
                    (''document_type'', PStr ''xlsx'')]]
                else [])
             else []))"

text \<open>The body of the loop over \<^verbatim>\<open>zip(osheets, rsheets)\<close>.\<close>

definition xlsx_sheet_formatting :: "platform \<Rightarrow> sheet \<times> sheet \<Rightarrow> change list" where
  "xlsx_sheet_formatting P p =
     (case p of (os, rs) \<Rightarrow>
        if sheet_name os \<noteq> sheet_name rs then []
        else
          (let ocells = cells_of os; rcells = cells_of rs
           in concat (map (xlsx_cell_formatting P (sheet_name os) rcells) ocells)))"

definition detect_xlsx_formatting_changes :: "platform \<Rightarrow> document \<Rightarrow> document \<Rightarrow> change list" where
  "detect_xlsx_formatting_changes P original revised =
     concat (map (xlsx_sheet_formatting P) (zip (sheets original) (sheets revised)))"

definition detect_formatting_changes :: "platform \<Rightarrow> document \<Rightarrow> document \<Rightarrow> error + change list" where
  "detect_formatting_changes P original revised =
     ebind (both_of_type original revised ''docx'') (\<lambda>docx.
       if docx then Inr (detect_docx_formatting_changes P original revised)
       else ebind (both_of_type original revised ''xlsx'') (\<lambda>xlsx.
         if xlsx then Inr (detect_xlsx_formatting_changes P original revised)
         else Inr []))"

subsection \<open>Tables\<close>

definition docx_cell_change :: "nat \<Rightarrow> nat \<Rightarrow> nat \<times> table_cell \<times> table_cell \<Rightarrow> change list" where
  "docx_cell_change i j kc =
     (case kc of (k, ocell, rcell) \<Rightarrow>
        if tcell_text ocell \<noteq> tcell_text rcell then
          [[(''type'', PStr ''table_cell_change''), (''table_index'', PInt (int i)),
            (''row_index'', PInt (int j)), (''cell_index'', PInt (int k)),
            (''old_text'', opt_str (tcell_text ocell)), (''new_text'', opt_str (tcell_text rcell)),
            (''document_type'', PStr ''docx'')]]
        else [])"

definition docx_row_changes :: "nat \<Rightarrow> nat \<times> table_cell list \<times> table_cell list \<Rightarrow> change list" where
  "docx_row_changes i jr =
     (case jr of (j, orow, rrow) \<Rightarrow>
        concat (map (docx_cell_change i j) (enumerate 0 (zip orow rrow))))"

definition docx_table_changes :: "nat \<times> table \<times> table \<Rightarrow> change list" where
  "docx_table_changes it =
     (case it of (i, ot, rt) \<Rightarrow>
        (let orows = table_rows ot; rrows = table_rows rt in
         (if length orows \<noteq> length rrows then
            [[(''type'', PStr ''table_row_count_change''), (''table_index'', PInt (int i)),
              (''original_rows'', PInt (int (length orows))),
              (''revised_rows'', PInt (int (length rrows))),
              (''document_type'', PStr ''docx'')]]
          else [])
         @ concat (map (docx_row_changes i) (enumerate 0 (zip orows rrows)))))"

definition detect_docx_table_changes :: "document \<Rightarrow> document \<Rightarrow> change list" where
  "detect_docx_table_changes original revised =
     (let otables = tables original; rtables = tables revised in
      (if length otables \<noteq> length rtables then
         [[(''type'', PStr ''table_count_change''),
           (''original_count'', PInt (int (length otables))),
           (''revised_count'', PInt (int (length rtables))),
           (''document_type'', PStr ''docx'')]]
       else [])
      @ concat (map docx_table_changes (enumerate 0 (zip otables rtables))))"

definition detect_table_changes :: "document \<Rightarrow> document \<Rightarrow> error + change list" where
  "detect_table_changes original revised =
     ebind (both_of_type original revised ''docx'') (\<lambda>docx.
       if docx then Inr (detect_docx_table_changes original revised) else Inr [])"

subsection \<open>Images\<close>

text \<open>\<^verbatim>\<open>_compare_images\<close>: the handler of its \<^verbatim>\<open>try\<close> block returns \<^verbatim>\<open>0.0\<close>.\<close>

definition compare_images :: "platform \<Rightarrow> string \<Rightarrow> string \<Rightarrow> rat" where
  "compare_images P img1_data img2_data =
     (case ssim_of_data P img1_data img2_data of None \<Rightarrow> 0 | Some s \<Rightarrow> s)"

definition image_similarity_threshold :: rat where
  "image_similarity_threshold = 95 / 100"

definition docx_image_changes :: "platform \<Rightarrow> nat \<times> image \<times> image \<Rightarrow> change list" where
  "docx_image_changes P ii =
     (case ii of (i, oi, ri) \<Rightarrow>
        (if image_size oi \<noteq> image_size ri then
           [[(''type'', PStr ''image_size_change''), (''image_index'', PInt (int i)),
             (''old_size'', opt_size (image_size oi)), (''new_size'', opt_size (image_size ri)),
             (''document_type'', PStr ''docx'')]]
         else [])
        @ (let sim = compare_images P (image_data oi) (image_data ri) in
           if sim < image_similarity_threshold then
             [[(''type'', PStr ''image_content_change''), (''image_index'', PInt (int i)),
               (''similarity'', PFloat sim), (''document_type'', PStr ''docx'')]]
           else []))"

definition detect_docx_image_changes :: "platform \<Rightarrow> document \<Rightarrow> document \<Rightarrow> change list" where
  "detect_docx_image_changes P original revised =
     (let oimgs = images original; rimgs = images revised in
      (if length oimgs \<noteq> length rimgs then
         [[(''type'', PStr ''image_count_change''),
           (''original_count'', PInt (int (length oimgs))),
           (''revised_count'', PInt (int (length rimgs))),
           (''document_type'', PStr ''docx'')]]
       else [])
      @ concat (map (docx_image_changes P) (enumerate 0 (zip oimgs rimgs))))"

definition detect_image_changes :: "platform \<Rightarrow> document \<Rightarrow> document \<Rightarrow> error + change list" where
  "detect_image_changes P original revised =
     ebind (both_of_type original revised ''docx'') (\<lambda>docx.
       if docx then Inr (detect_docx_image_changes P original revised) else Inr [])"

subsection \<open>Structure\<close>

definition count_change :: "string \<Rightarrow> nat \<Rightarrow> nat \<Rightarrow> string \<Rightarrow> change list" where
  "count_change ty oc rc document_type =
     (if oc \<noteq> rc then
        [[(''type'', PStr ty), (''original_count'', PInt (int oc)),
          (''revised_count'', PInt (int rc)), (''document_type'', PStr document_type)]]
      else [])"

definition detect_structural_changes :: "document \<Rightarrow> document \<Rightarrow> error + change list" where
  "detect_structural_changes original revised =
     ebind (get_type original) (\<lambda>t. ebind (get_type revised) (\<lambda>u.
       if t \<noteq> u then
         Inr [[(''type'', PStr ''document_type_change''), (''original_type'', PStr t),
               (''revised_type'', PStr u)]]
       else if t = ''docx'' then
         Inr (count_change ''paragraph_count_change''
                (length (paragraphs original)) (length (paragraphs revised)) ''docx'')
       else if t = ''pdf'' then
         Inr (count_change ''page_count_change''
                (length (pages original)) (length (pages revised)) ''pdf'')
       else if t = ''xlsx'' then
         Inr (count_change ''sheet_count_change''
                (length (sheets original)) (length (sheets revised)) ''xlsx'')
       else Inr []))"

subsection \<open>\<^verbatim>\<open>detect_changes\<close>\<close>

record report_summary =
  total_changes :: nat
  text_changes_count :: nat
  formatting_changes_count :: nat
  table_changes_count :: nat
  image_changes_count :: nat
  annotation_changes_count :: nat
  structural_changes_count :: nat

record change_report =
  text_changes :: "change list"
  formatting_changes :: "change list"
  table_changes :: "change list"
  image_changes :: "change list"
  annotation_changes :: "change list"
  structural_changes :: "change list"
  summary :: report_summary

text \<open>
  The six comparators run in the order of the source; an exception of one of them leaves
  \<^verbatim>\<open>detect_changes\<close> at once, with no report.
\<close>

definition detect_changes :: "platform \<Rightarrow> document \<Rightarrow> document \<Rightarrow> error + change_report" where
  "detect_changes P original revised =
     ebind (detect_text_changes P original revised) (\<lambda>text_changes'.
     ebind (detect_formatting_changes P original revised) (\<lambda>formatting_changes'.
     ebind (detect_table_changes original revised) (\<lambda>table_changes'.
     ebind (detect_image_changes P original revised) (\<lambda>image_changes'.
     ebind (detect_annotation_changes P original revised) (\<lambda>annotation_changes'.
     ebind (detect_structural_changes original revised) (\<lambda>structural_changes'.
       Inr \<lparr>text_changes = text_changes',
            formatting_changes = formatting_changes',
            table_changes = table_changes',
            image_changes = image_changes',
            annotation_changes = annotation_changes',
            structural_changes = structural_changes',
            summary = \<lparr>
              total_changes =
                length text_changes' + length formatting_changes' + length table_changes'
                + length image_changes' + length annotation_changes' + length structural_changes',
              text_changes_count = length text_changes',
              formatting_changes_count = length formatting_changes',
              table_changes_count = length table_changes',
              image_changes_count = length image_changes',
              annotation_changes_count = length annotation_changes',
              structural_changes_count = length structural_changes'\<rparr>\<rparr>))))))"

section \<open>A sample platform and sample documents\<close>

text \<open>
  The theorems below hold for every platform. Where a result is evaluated on a concrete
  input, the library primitives are those of \<open>sample_platform\<close>: the ASCII character
  classes, an image comparison that fails on empty data as the decoder does, and fixed
  strings where only the shape of the result matters.
\<close>

definition sample_platform :: platform where
  "sample_platform =
     \<lparr>is_word = (\<lambda>c. c \<in> set ''abcdefghijklmnopqrstuvwxyzABCDEFGHIJKLMNOPQRSTUVWXYZ0123456789_''),
      is_space = (\<lambda>c. c \<in> {CHR '' '', CHR 0x09, CHR 0x0A, CHR 0x0B, CHR 0x0C, CHR 0x0D}),
      md5_hexdigest = (\<lambda>s. ''0123456789abcdef0123456789abcdef''),
      ssim_of_data = (\<lambda>x y. if x = [] \<or> y = [] then None else if x = y then Some 1 else Some 0),
      parse_float = (\<lambda>s. None),
      round3 = (\<lambda>q. q),
      str_float = (\<lambda>q. ''0.0''),
      fmt_2f = (\<lambda>q. ''0.00'')\<rparr>"

definition empty_document :: document where
  "empty_document =
     \<lparr>doc_type = None, paragraphs = [], tables = [], images = [], pages = [],
      annotations = [], sheets = []\<rparr>"

section \<open>Dispatch by document kind\<close>

lemma both_of_type_simps:
  "doc_type original = Some t \<Longrightarrow> doc_type revised = Some u \<Longrightarrow>
     both_of_type original revised k = Inr (t = k \<and> u = k)"
  by (auto simp: both_of_type_def get_type_def ebind_def)

text \<open>
  Claim C4. For every pair of documents whose kinds are present and differ,
  \<^verbatim>\<open>detect_changes\<close> returns a report with exactly one structural record, of type
  \<^verbatim>\<open>document_type_change\<close>, the five other category lists empty, and \<^verbatim>\<open>total_changes\<close>
  equal to 1.
\<close>

theorem detect_changes_kind_mismatch:
  assumes "doc_type original = Some t" "doc_type revised = Some u" "t \<noteq> u"
  shows "\<exists>rep. detect_changes P original revised = Inr rep
    \<and> structural_changes rep =
        [[(''type'', PStr ''document_type_change''), (''original_type'', PStr t),
          (''revised_type'', PStr u)]]
    \<and> text_changes rep = [] \<and> formatting_changes rep = [] \<and> table_changes rep = []
    \<and> image_changes rep = [] \<and> annotation_changes rep = []
    \<and> total_changes (summary rep) = 1"
proof -
  have b: "\<And>k. both_of_type original revised k = Inr False"
    using assms by (auto simp: both_of_type_simps)
  have "detect_text_changes P original revised = Inr []"
    by (simp add: detect_text_changes_def b ebind_def)
  moreover have "detect_formatting_changes P original revised = Inr []"
    by (simp add: detect_formatting_changes_def b ebind_def)
  moreover have "detect_table_changes original revised = Inr []"
    by (simp add: detect_table_changes_def b ebind_def)
  moreover have "detect_image_changes P original revised = Inr []"
    by (simp add: detect_image_changes_def b ebind_def)
  moreover have "detect_annotation_changes P original revised = Inr []"
    using assms by (auto simp: detect_annotation_changes_def get_type_def ebind_def)
  moreover have "detect_structural_changes original revised =
      Inr [[(''type'', PStr ''document_type_change''), (''original_type'', PStr t),
            (''revised_type'', PStr u)]]"
    using assms by (simp add: detect_structural_changes_def get_type_def ebind_def)
  ultimately show ?thesis by (simp add: detect_changes_def ebind_def)
qed

theorem detect_changes_kind_mismatch_witness:
  "\<exists>rep. detect_changes sample_platform (empty_document\<lparr>doc_type := Some ''docx''\<rparr>)
        (empty_document\<lparr>doc_type := Some ''xlsx''\<rparr>) = Inr rep
    \<and> structural_changes rep =
        [[(''type'', PStr ''document_type_change''), (''original_type'', PStr ''docx''),
          (''revised_type'', PStr ''xlsx'')]]
    \<and> text_changes rep = [] \<and> formatting_changes rep = [] \<and> table_changes rep = []
    \<and> image_changes rep = [] \<and> annotation_changes rep = []
    \<and> total_changes (summary rep) = 1"
  using detect_changes_kind_mismatch [of "empty_document\<lparr>doc_type := Some ''docx''\<rparr>" "''docx''"
      "empty_document\<lparr>doc_type := Some ''xlsx''\<rparr>" "''xlsx''" sample_platform]
  by (simp add: empty_document_def)

definition empty_report :: change_report where
  "empty_report =
     \<lparr>text_changes = [], formatting_changes = [], table_changes = [], image_changes = [],
      annotation_changes = [], structural_changes = [],
      summary = \<lparr>total_changes = 0, text_changes_count = 0, formatting_changes_count = 0,
                 table_changes_count = 0, image_changes_count = 0,
                 annotation_changes_count = 0, structural_changes_count = 0\<rparr>\<rparr>"

text \<open>
  Claim C7 says that documents whose kind is missing or not recognized make
  \<^verbatim>\<open>detect_changes\<close> signal an error and never return an empty report. The source has
  no check of the kind: two documents of the same unrecognized kind pass every
  comparator and come back with the empty report.
\<close>

theorem unrecognized_kind_counterexample:
  "detect_changes sample_platform (empty_document\<lparr>doc_type := Some ''txt''\<rparr>)
     (empty_document\<lparr>doc_type := Some ''txt''\<rparr>) = Inr empty_report"
  by (simp add: detect_changes_def detect_text_changes_def detect_formatting_changes_def
      detect_table_changes_def detect_image_changes_def detect_annotation_changes_def
      detect_structural_changes_def both_of_type_def get_type_def ebind_def
      empty_document_def empty_report_def)

text \<open>
  Claim C7, amended. A document without a kind makes \<^verbatim>\<open>detect_changes\<close> raise
  \<^verbatim>\<open>KeyError\<close>; two documents of one kind that is none of \<^verbatim>\<open>docx\<close>, \<^verbatim>\<open>pdf\<close>, \<^verbatim>\<open>xlsx\<close>
  give the empty report with \<^verbatim>\<open>total_changes\<close> 0 and no error.
\<close>

theorem detect_changes_kind_contract:
  "(doc_type original = None \<or> doc_type revised = None \<longrightarrow>
      detect_changes P original revised = Inl (KeyError ''type''))
   \<and> (doc_type original = Some t \<and> doc_type revised = Some t
        \<and> t \<notin> {''docx'', ''pdf'', ''xlsx''} \<longrightarrow>
      detect_changes P original revised = Inr empty_report)"
proof (intro conjI impI)
  assume m: "doc_type original = None \<or> doc_type revised = None"
  show "detect_changes P original revised = Inl (KeyError ''type'')"
  proof (cases "doc_type original")
    case None
    then show ?thesis
      by (simp add: detect_changes_def detect_text_changes_def both_of_type_def get_type_def
          ebind_def)
  next
    case (Some t)
    with m have r: "doc_type revised = None" by simp
    have b: "\<And>k. both_of_type original revised k = (if t = k then Inl (KeyError ''type'') else Inr False)"
      using Some r by (simp add: both_of_type_def get_type_def ebind_def)
    have a: "detect_annotation_changes P original revised = Inl (KeyError ''type'')"
      using Some r by (simp add: detect_annotation_changes_def get_type_def ebind_def)
    show ?thesis
      by (simp add: detect_changes_def detect_text_changes_def detect_formatting_changes_def
          detect_table_changes_def detect_image_changes_def a b ebind_def)
  qed
next
  assume "doc_type original = Some t \<and> doc_type revised = Some t
        \<and> t \<notin> {''docx'', ''pdf'', ''xlsx''}"
  then have o: "doc_type original = Some t" and r: "doc_type revised = Some t"
    and t: "t \<noteq> ''docx''" "t \<noteq> ''pdf''" "t \<noteq> ''xlsx''" by auto
  have b: "\<And>k. both_of_type original revised k = Inr (t = k)"
    using o r by (auto simp: both_of_type_simps)
  have a: "detect_annotation_changes P original revised = Inr []"
    using o r t by (simp add: detect_annotation_changes_def get_type_def ebind_def)
  have s: "detect_structural_changes original revised = Inr []"
    using o r t by (simp add: detect_structural_changes_def get_type_def ebind_def)
  show "detect_changes P original revised = Inr empty_report"
    using t
    by (simp add: detect_changes_def detect_text_changes_def detect_formatting_changes_def
        detect_table_changes_def detect_image_changes_def a b s ebind_def empty_report_def)
qed

theorem detect_changes_kind_contract_witness:
  "detect_changes sample_platform empty_document (empty_document\<lparr>doc_type := Some ''docx''\<rparr>)
     = Inl (KeyError ''type'')
   \<and> detect_changes sample_platform (empty_document\<lparr>doc_type := Some ''rtf''\<rparr>)
       (empty_document\<lparr>doc_type := Some ''rtf''\<rparr>) = Inr empty_report"
  using detect_changes_kind_contract [of empty_document "empty_document\<lparr>doc_type := Some ''docx''\<rparr>"
      sample_platform "''rtf''"]
    detect_changes_kind_contract [of "empty_document\<lparr>doc_type := Some ''rtf''\<rparr>"
      "empty_document\<lparr>doc_type := Some ''rtf''\<rparr>" sample_platform "''rtf''"]
  by (simp add: empty_document_def)

section \<open>Word paragraphs\<close>

text \<open>The records of a list that carry a given \<^verbatim>\<open>paragraph_index\<close>.\<close>

definition records_at :: "nat \<Rightarrow> change list \<Rightarrow> change list" where
  "records_at i cs = filter (\<lambda>c. map_of c ''paragraph_index'' = Some (PInt (int i))) cs"

lemma concat_single_index:
  "concat (map (\<lambda>j. if j = i then xs else []) [0..<n]) = (if i < n then xs else [])"
  by (induction n) auto

lemma docx_text_change_cases:
  "docx_text_change P op rp i =
     (if docx_text_at op i \<noteq> [] \<and> docx_text_at rp i = [] then
        [[(''type'', PStr ''text_change''), (''change_type'', PStr ''deleted''),
          (''content'', PStr (docx_text_at op i)), (''paragraph_index'', PInt (int i)),
          (''document_type'', PStr ''docx'')]]
      else if docx_text_at rp i \<noteq> [] \<and> docx_text_at op i = [] then
        [[(''type'', PStr ''text_change''), (''change_type'', PStr ''added''),
          (''content'', PStr (docx_text_at rp i)), (''paragraph_index'', PInt (int i)),
          (''document_type'', PStr ''docx'')]]
      else if docx_text_at op i \<noteq> docx_text_at rp i then
        [[(''type'', PStr ''text_change''), (''change_type'', PStr ''modified''),
          (''content_html'', PStr (fst (word_diff_html P (docx_text_at op i) (docx_text_at rp i)))),
          (''old_text'', PStr (docx_text_at op i)), (''new_text'', PStr (docx_text_at rp i)),
          (''added_terms'',
             PList (map PStr (fst (snd (word_diff_html P (docx_text_at op i) (docx_text_at rp i)))))),
          (''deleted_terms'',
             PList (map PStr (snd (snd (word_diff_html P (docx_text_at op i) (docx_text_at rp i)))))),
          (''paragraph_index'', PInt (int i)), (''document_type'', PStr ''docx'')]]
      else [])"
  unfolding docx_text_change_def Let_def case_prod_beta by (rule refl)

lemma docx_text_change_index:
  "\<forall>c\<in>set (docx_text_change P op rp j). map_of c ''paragraph_index'' = Some (PInt (int j))"
  unfolding docx_text_change_cases
  apply (cases "docx_text_at op j \<noteq> [] \<and> docx_text_at rp j = []")
   apply simp
  apply (cases "docx_text_at rp j \<noteq> [] \<and> docx_text_at op j = []")
   apply simp
  apply (cases "docx_text_at op j \<noteq> docx_text_at rp j")
   apply simp
  apply simp
  done

lemma records_at_docx_text_change:
  "records_at i (docx_text_change P op rp j) = (if j = i then docx_text_change P op rp i else [])"
  using docx_text_change_index [of P op rp j] unfolding records_at_def
  by (auto simp: filter_empty_conv filter_id_conv)

lemma records_at_detect_docx:
  "records_at i (detect_docx_text_changes P original revised) =
     (if i < max (length (paragraphs original)) (length (paragraphs revised))
      then docx_text_change P (paragraphs original) (paragraphs revised) i else [])"
proof -
  have "records_at i (detect_docx_text_changes P original revised) =
      concat (map (\<lambda>j. records_at i (docx_text_change P (paragraphs original) (paragraphs revised) j))
        [0..<max (length (paragraphs original)) (length (paragraphs revised))])"
    by (simp add: detect_docx_text_changes_def records_at_def filter_concat comp_def Let_def)
  then show ?thesis
    by (simp only: records_at_docx_text_change concat_single_index)
qed

definition empty_para :: para where
  "empty_para = \<lparr>para_text = [], para_style = None, para_runs = []\<rparr>"

text \<open>
  Claim C5 says that every index in range on exactly one side gives an \<^verbatim>\<open>added\<close> or
  \<^verbatim>\<open>deleted\<close> record. A trailing paragraph with empty text gives no record: the guards
  of the loop test the texts, not the indices.
\<close>

theorem docx_extra_empty_paragraph_counterexample:
  "length (paragraphs (empty_document\<lparr>doc_type := Some ''docx''\<rparr>)) = 0
   \<and> length (paragraphs (empty_document\<lparr>doc_type := Some ''docx'',
        paragraphs := [empty_para]\<rparr>)) = 1
   \<and> detect_docx_text_changes sample_platform
     (empty_document\<lparr>doc_type := Some ''docx''\<rparr>)
     (empty_document\<lparr>doc_type := Some ''docx'', paragraphs := [empty_para]\<rparr>) = []"
  by (simp add: detect_docx_text_changes_def docx_text_change_def docx_text_at_def
      empty_document_def empty_para_def)

text \<open>The fields of a text record that the statements below read.\<close>

definition text_fields :: "change \<Rightarrow> pyval option \<times> pyval option \<times> pyval option" where
  "text_fields c = (map_of c ''type'', map_of c ''change_type'', map_of c ''content'')"

definition modified_fields :: "change \<Rightarrow> pyval option list" where
  "modified_fields c =
     map (map_of c) [''type'', ''change_type'', ''content_html'', ''old_text'', ''new_text'',
                     ''added_terms'', ''deleted_terms'']"

text \<open>
  Claim C5, amended. The comparator works index by index up to the longer of the two
  paragraph lists. An index in range on one side only, whose paragraph text is not
  empty, gives exactly one record at that index: \<^verbatim>\<open>deleted\<close> or \<^verbatim>\<open>added\<close>, with the full
  text of the paragraph. An index in range on both sides, with two different texts neither
  of which is empty, gives exactly one record: \<^verbatim>\<open>modified\<close>, with the markup, the old and
  new text and the added and deleted terms of the token differ.
\<close>

theorem docx_text_changes_by_index:
  assumes "op = paragraphs original" "rp = paragraphs revised"
  shows
    "(i < length op \<and> length rp \<le> i \<and> para_text (op ! i) \<noteq> [] \<longrightarrow>
        map text_fields (records_at i (detect_docx_text_changes P original revised)) =
          [(Some (PStr ''text_change''), Some (PStr ''deleted''), Some (PStr (para_text (op ! i))))])
     \<and> (i < length rp \<and> length op \<le> i \<and> para_text (rp ! i) \<noteq> [] \<longrightarrow>
        map text_fields (records_at i (detect_docx_text_changes P original revised)) =
          [(Some (PStr ''text_change''), Some (PStr ''added''), Some (PStr (para_text (rp ! i))))])
     \<and> (i < length op \<and> i < length rp \<and> para_text (op ! i) \<noteq> [] \<and> para_text (rp ! i) \<noteq> []
          \<and> para_text (op ! i) \<noteq> para_text (rp ! i) \<longrightarrow>
        map modified_fields (records_at i (detect_docx_text_changes P original revised)) =
          (case word_diff_html P (para_text (op ! i)) (para_text (rp ! i)) of
             (diff_html, added, deleted) \<Rightarrow>
               [[Some (PStr ''text_change''), Some (PStr ''modified''), Some (PStr diff_html),
                 Some (PStr (para_text (op ! i))), Some (PStr (para_text (rp ! i))),
                 Some (PList (map PStr added)), Some (PList (map PStr deleted))]]))"
proof (intro conjI impI)
  let ?out = "records_at i (detect_docx_text_changes P original revised)"
  {
    assume h: "i < length op \<and> length rp \<le> i \<and> para_text (op ! i) \<noteq> []"
    then have "docx_text_at op i = para_text (op ! i)" "docx_text_at rp i = []"
      by (simp_all add: docx_text_at_def)
    then have "docx_text_change P op rp i =
        [[(''type'', PStr ''text_change''), (''change_type'', PStr ''deleted''),
          (''content'', PStr (para_text (op ! i))), (''paragraph_index'', PInt (int i)),
          (''document_type'', PStr ''docx'')]]"
      using h unfolding docx_text_change_cases by simp
    moreover have "?out = docx_text_change P op rp i"
      using h unfolding records_at_detect_docx assms by (auto simp: less_max_iff_disj)
    ultimately show "map text_fields ?out =
        [(Some (PStr ''text_change''), Some (PStr ''deleted''), Some (PStr (para_text (op ! i))))]"
      by (simp add: text_fields_def)
  }
  {
    assume h: "i < length rp \<and> length op \<le> i \<and> para_text (rp ! i) \<noteq> []"
    then have "docx_text_at rp i = para_text (rp ! i)" "docx_text_at op i = []"
      by (simp_all add: docx_text_at_def)
    then have "docx_text_change P op rp i =
        [[(''type'', PStr ''text_change''), (''change_type'', PStr ''added''),
          (''content'', PStr (para_text (rp ! i))), (''paragraph_index'', PInt (int i)),
          (''document_type'', PStr ''docx'')]]"
      using h unfolding docx_text_change_cases by simp
    moreover have "?out = docx_text_change P op rp i"
      using h unfolding records_at_detect_docx assms by (auto simp: less_max_iff_disj)
    ultimately show "map text_fields ?out =
        [(Some (PStr ''text_change''), Some (PStr ''added''), Some (PStr (para_text (rp ! i))))]"
      by (simp add: text_fields_def)
  }
  {
    assume h: "i < length op \<and> i < length rp \<and> para_text (op ! i) \<noteq> []
          \<and> para_text (rp ! i) \<noteq> [] \<and> para_text (op ! i) \<noteq> para_text (rp ! i)"
    then have t: "docx_text_at op i = para_text (op ! i)" "docx_text_at rp i = para_text (rp ! i)"
      by (simp_all add: docx_text_at_def)
    have "?out = docx_text_change P op rp i"
      using h unfolding records_at_detect_docx assms by (auto simp: less_max_iff_disj)
    then show "map modified_fields ?out =
          (case word_diff_html P (para_text (op ! i)) (para_text (rp ! i)) of
             (diff_html, added, deleted) \<Rightarrow>
               [[Some (PStr ''text_change''), Some (PStr ''modified''), Some (PStr diff_html),
                 Some (PStr (para_text (op ! i))), Some (PStr (para_text (rp ! i))),
                 Some (PList (map PStr added)), Some (PList (map PStr deleted))]])"
      using h unfolding docx_text_change_cases t
      by (simp add: modified_fields_def case_prod_beta)
  }
qed

definition para_of :: "string \<Rightarrow> para" where
  "para_of s = \<lparr>para_text = s, para_style = None, para_runs = []\<rparr>"

definition docx_of :: "string list \<Rightarrow> document" where
  "docx_of ts = empty_document\<lparr>doc_type := Some ''docx'', paragraphs := map para_of ts\<rparr>"

theorem docx_text_changes_by_index_witness:
  "map text_fields (records_at 2 (detect_docx_text_changes sample_platform
       (docx_of [''a'', ''b'', ''c'']) (docx_of [''a'', ''x'']))) =
     [(Some (PStr ''text_change''), Some (PStr ''deleted''), Some (PStr ''c''))]
   \<and> map text_fields (records_at 2 (detect_docx_text_changes sample_platform
       (docx_of [''a'', ''x'']) (docx_of [''a'', ''b'', ''c'']))) =
     [(Some (PStr ''text_change''), Some (PStr ''added''), Some (PStr ''c''))]
   \<and> map modified_fields (records_at 1 (detect_docx_text_changes sample_platform
       (docx_of [''a'', ''b'', ''c'']) (docx_of [''a'', ''x'']))) =
     (case word_diff_html sample_platform ''b'' ''x'' of
        (diff_html, added, deleted) \<Rightarrow>
          [[Some (PStr ''text_change''), Some (PStr ''modified''), Some (PStr diff_html),
            Some (PStr ''b''), Some (PStr ''x''),
            Some (PList (map PStr added)), Some (PList (map PStr deleted))]])"
  using docx_text_changes_by_index [OF refl refl, of 2 "docx_of [''a'', ''b'', ''c'']"
      "docx_of [''a'', ''x'']" sample_platform]
    docx_text_changes_by_index [OF refl refl, of 2 "docx_of [''a'', ''x'']"
      "docx_of [''a'', ''b'', ''c'']" sample_platform]
    docx_text_changes_by_index [OF refl refl, of 1 "docx_of [''a'', ''b'', ''c'']"
      "docx_of [''a'', ''x'']" sample_platform]
  by (simp add: docx_of_def para_of_def empty_document_def)

text \<open>
  Claim C9. In the comparison of word paragraphs an empty text counts as an absent
  paragraph. At an index in range on both sides, a non-empty original text against an
  empty revised text gives exactly one record, \<^verbatim>\<open>deleted\<close> (and \<^verbatim>\<open>added\<close> the other way
  round), so never a \<^verbatim>\<open>modified\<close> one. Where each side has an empty text or no
  paragraph at the index, there is no record at all.
\<close>

theorem docx_empty_text_is_absence:
  assumes "op = paragraphs original" "rp = paragraphs revised"
  shows
    "(i < length op \<and> i < length rp \<and> para_text (op ! i) \<noteq> [] \<and> para_text (rp ! i) = [] \<longrightarrow>
        map text_fields (records_at i (detect_docx_text_changes P original revised)) =
          [(Some (PStr ''text_change''), Some (PStr ''deleted''), Some (PStr (para_text (op ! i))))])
     \<and> (i < length op \<and> i < length rp \<and> para_text (op ! i) = [] \<and> para_text (rp ! i) \<noteq> [] \<longrightarrow>
        map text_fields (records_at i (detect_docx_text_changes P original revised)) =
          [(Some (PStr ''text_change''), Some (PStr ''added''), Some (PStr (para_text (rp ! i))))])
     \<and> ((i < length op \<longrightarrow> para_text (op ! i) = []) \<and> (i < length rp \<longrightarrow> para_text (rp ! i) = [])
          \<longrightarrow> records_at i (detect_docx_text_changes P original revised) = [])"
proof (intro conjI impI)
  let ?out = "records_at i (detect_docx_text_changes P original revised)"
  {
    assume h: "i < length op \<and> i < length rp \<and> para_text (op ! i) \<noteq> [] \<and> para_text (rp ! i) = []"
    then have "docx_text_at op i = para_text (op ! i)" "docx_text_at rp i = []"
      by (simp_all add: docx_text_at_def)
    then have "docx_text_change P op rp i =
        [[(''type'', PStr ''text_change''), (''change_type'', PStr ''deleted''),
          (''content'', PStr (para_text (op ! i))), (''paragraph_index'', PInt (int i)),
          (''document_type'', PStr ''docx'')]]"
      using h unfolding docx_text_change_cases by simp
    moreover have "?out = docx_text_change P op rp i"
      using h unfolding records_at_detect_docx assms by (auto simp: less_max_iff_disj)
    ultimately show "map text_fields ?out =
        [(Some (PStr ''text_change''), Some (PStr ''deleted''), Some (PStr (para_text (op ! i))))]"
      by (simp add: text_fields_def)
  }
  {
    assume h: "i < length op \<and> i < length rp \<and> para_text (op ! i) = [] \<and> para_text (rp ! i) \<noteq> []"
    then have "docx_text_at rp i = para_text (rp ! i)" "docx_text_at op i = []"
      by (simp_all add: docx_text_at_def)
    then have "docx_text_change P op rp i =
        [[(''type'', PStr ''text_change''), (''change_type'', PStr ''added''),
          (''content'', PStr (para_text (rp ! i))), (''paragraph_index'', PInt (int i)),
          (''document_type'', PStr ''docx'')]]"
      using h unfolding docx_text_change_cases by simp
    moreover have "?out = docx_text_change P op rp i"
      using h unfolding records_at_detect_docx assms by (auto simp: less_max_iff_disj)
    ultimately show "map text_fields ?out =
        [(Some (PStr ''text_change''), Some (PStr ''added''), Some (PStr (para_text (rp ! i))))]"
      by (simp add: text_fields_def)
  }
  {
    assume h: "(i < length op \<longrightarrow> para_text (op ! i) = []) \<and> (i < length rp \<longrightarrow> para_text (rp ! i) = [])"
    then have "docx_text_at op i = []" "docx_text_at rp i = []"
      by (simp_all add: docx_text_at_def)
    then have "docx_text_change P op rp i = []"
      unfolding docx_text_change_cases by simp
    then show "?out = []"
      unfolding records_at_detect_docx assms by simp
  }
qed

theorem docx_empty_text_is_absence_witness:
  "map text_fields (records_at 1 (detect_docx_text_changes sample_platform
       (docx_of [''a'', ''b'', []]) (docx_of [''a'', []]))) =
     [(Some (PStr ''text_change''), Some (PStr ''deleted''), Some (PStr ''b''))]
   \<and> map text_fields (records_at 1 (detect_docx_text_changes sample_platform
       (docx_of [''a'', []]) (docx_of [''a'', ''b'', []]))) =
     [(Some (PStr ''text_change''), Some (PStr ''added''), Some (PStr ''b''))]
   \<and> records_at 2 (detect_docx_text_changes sample_platform
       (docx_of [''a'', ''b'', []]) (docx_of [''a'', []])) = []"
  using docx_empty_text_is_absence [OF refl refl, of 1 "docx_of [''a'', ''b'', []]"
      "docx_of [''a'', []]" sample_platform]
    docx_empty_text_is_absence [OF refl refl, of 1 "docx_of [''a'', []]"
      "docx_of [''a'', ''b'', []]" sample_platform]
    docx_empty_text_is_absence [OF refl refl, of 2 "docx_of [''a'', ''b'', []]"
      "docx_of [''a'', []]" sample_platform]
  by (simp add: docx_of_def para_of_def empty_document_def)

section \<open>Annotation fields\<close>






definition empty_annotation :: annotation where
  "empty_annotation =
     \<lparr>annot_id = None, annot_page_number = None, annot_subtype = None, annot_rect = PNone,
      annot_quadpoints = PNone, annot_contents = None, annot_author = None,
      annot_subject = None, annot_color = PNone\<rparr>"



section \<open>The fallback key of an annotation\<close>

definition unnamed_highlight :: annotation where
  "unnamed_highlight =
     empty_annotation\<lparr>annot_page_number := Some 1, annot_subtype := Some ''Highlight'',
                      annot_contents := Some ''note''\<rparr>"

lemma str_int_1: "str_int 1 = ''1''"
  by (simp add: str_int_def str_nat.simps)

text \<open>
  Claim C2 says that the comparator's fallback key of an annotation without a name equals
  the fallback ID the extraction layer computes from the same page number, subtype, rect
  and contents. The two functions build different strings: on page 1, subtype
  \<^verbatim>\<open>Highlight\<close>, no rect and contents \<^verbatim>\<open>note\<close> both hash \<^verbatim>\<open>1:Highlight::note\<close>, and the
  comparator returns \<^verbatim>\<open>AUTO-\<close> and the digest where the extraction layer returns
  \<^verbatim>\<open>AUTO-1-Highlight-\<close> and the digest. (They also differ in the hashed text: the
  extraction layer writes the rect with two decimals and does not cut the contents at 64
  characters.)
\<close>

theorem annot_key_differs_from_extraction_id:
  "annot_key P unnamed_highlight = ''AUTO-'' @ take 10 (md5_hexdigest P ''1:Highlight::note'')
   \<and> compute_annot_fallback_id P 1 ''Highlight'' [] ''note''
       = ''AUTO-1-Highlight-'' @ take 10 (md5_hexdigest P ''1:Highlight::note'')
   \<and> annot_key P unnamed_highlight \<noteq> compute_annot_fallback_id P 1 ''Highlight'' [] ''note''"
proof -
  have k: "annot_key P unnamed_highlight = ''AUTO-'' @ take 10 (md5_hexdigest P ''1:Highlight::note'')"
    by (simp add: annot_key_def unnamed_highlight_def empty_annotation_def or_empty_def
        norm_floats_def norm_floats_res_def opt_int_def join_def str_int_1)
  have f: "compute_annot_fallback_id P 1 ''Highlight'' [] ''note''
       = ''AUTO-1-Highlight-'' @ take 10 (md5_hexdigest P ''1:Highlight::note'')"
    by (simp add: compute_annot_fallback_id_def join_def str_int_1)
  have "length (annot_key P unnamed_highlight)
      \<noteq> length (compute_annot_fallback_id P 1 ''Highlight'' [] ''note'')"
    unfolding k f by simp
  then have "annot_key P unnamed_highlight \<noteq> compute_annot_fallback_id P 1 ''Highlight'' [] ''note''"
    by metis
  with k f show ?thesis by blast
qed

section \<open>Spreadsheet formatting\<close>
























section \<open>The token differ restores its inputs\<close>


text \<open>
  A block is valid when it lies inside both lists and its two sides are equal element by
  element; one block is before another when it ends, on both sides, where the other
  starts or earlier.
\<close>

definition valid_block :: "'a list \<Rightarrow> 'a list \<Rightarrow> block \<Rightarrow> bool" where
  "valid_block a b x \<longleftrightarrow>
     fst x + snd (snd x) \<le> length a \<and> fst (snd x) + snd (snd x) \<le> length b
     \<and> (\<forall>t<snd (snd x). a ! (fst x + t) = b ! (fst (snd x) + t))"

definition before :: "block \<Rightarrow> block \<Rightarrow> bool" where
  "before x y \<longleftrightarrow>
     fst x + snd (snd x) \<le> fst y \<and> fst (snd x) + snd (snd x) \<le> fst (snd y)"

lemma valid_block_simp [simp]:
  "valid_block a b (i, j, k) \<longleftrightarrow>
     i + k \<le> length a \<and> j + k \<le> length b \<and> (\<forall>t<k. a ! (i + t) = b ! (j + t))"
  by (simp add: valid_block_def)

lemma before_simp [simp]: "before (i, j, k) y \<longleftrightarrow> i + k \<le> fst y \<and> j + k \<le> fst (snd y)"
  by (simp add: before_def)




lemma slice_empty: "slice xs i i = []"
  by (simp add: slice_def)








fun sep :: "window \<Rightarrow> window \<Rightarrow> bool" where
  "sep (alo, ahi, blo, bhi) (alo', ahi', blo', bhi') \<longleftrightarrow>
     (ahi \<le> alo' \<and> bhi \<le> blo') \<or> (ahi' \<le> alo \<and> bhi' \<le> blo)"

















section \<open>The \<^verbatim>\<open>change_type\<close> of a record\<close>




subsection \<open>Text and annotation records carry one\<close>















subsection \<open>Formatting, table, image and structural records carry none\<close>














subsection \<open>The change type of an annotation record follows its key\<close>
















section \<open>Comparing a list with itself\<close>















section \<open>Comparing a document with itself\<close>
































end
